theory Spec2Isabelle
  imports Main
begin

section \<open>Errors and Python values\<close>

text \<open>
  Every \<^verbatim>\<open>raise\<close> of the Python code, and of the library calls it makes, is a value
  of type \<open>error\<close>; a computation that may raise returns \<open>error + 'a\<close>, with \<open>Inl\<close>
  for the exception.
\<close>

datatype error = ValueError string | TypeError string | RuntimeError string

definition ebind :: "error + 'a \<Rightarrow> ('a \<Rightarrow> error + 'b) \<Rightarrow> error + 'b" where
  "ebind m f = (case m of Inl e \<Rightarrow> Inl e | Inr x \<Rightarrow> f x)"

fun mapM :: "('a \<Rightarrow> error + 'b) \<Rightarrow> 'a list \<Rightarrow> error + 'b list" where
  "mapM f [] = Inr []"
| "mapM f (x # xs) = ebind (f x) (\<lambda>y. ebind (mapM f xs) (\<lambda>ys. Inr (y # ys)))"

text \<open>
  The values a keyword argument can hold: an integer, a string, a resolved
  \<^verbatim>\<open>pywt.Wavelet\<close> object, or any other object.
\<close>

datatype 'w pyval = PyInt int | PyStr string | PyWavelet 'w | PyOther

type_synonym 'w kwargs = "string \<rightharpoonup> 'w pyval"

definition dict_get :: "'w kwargs \<Rightarrow> string \<Rightarrow> 'w pyval \<Rightarrow> 'w pyval" where
  "dict_get d key dflt = (case d key of None \<Rightarrow> dflt | Some v \<Rightarrow> v)"

text \<open>\<^verbatim>\<open>range(a, b)\<close> accepts integers only.\<close>

definition py_int :: "'w pyval \<Rightarrow> error + int" where
  "py_int v = (case v of PyInt n \<Rightarrow> Inr n
     | _ \<Rightarrow> Inl (TypeError ''object cannot be interpreted as an integer''))"

text \<open>\<^verbatim>\<open>'%s' % n\<close> for a natural number: its decimal digits.\<close>

definition digit_char :: "nat \<Rightarrow> char" where
  "digit_char d = char_of (48 + d)"

function str_nat :: "nat \<Rightarrow> string" where
  "str_nat n = (if n < 10 then [digit_char n] else str_nat (n div 10) @ [digit_char (n mod 10)])"
  by pat_completeness auto
termination
  by (relation "measure (\<lambda>n. n)") auto

declare str_nat.simps [simp del]

section \<open>numpy arrays\<close>

text \<open>
  An \<^verbatim>\<open>ndarray\<close> is its shape and its samples in row-major (C) order, the order
  numpy's \<^verbatim>\<open>resize\<close>, \<^verbatim>\<open>reshape\<close>, \<^verbatim>\<open>hstack\<close> and iteration work in.
\<close>

record 'a ndarray =
  shape :: "nat list"
  flat :: "'a list"

definition ndim :: "'a ndarray \<Rightarrow> nat" where
  "ndim a = length (shape a)"

definition wf_array :: "'a ndarray \<Rightarrow> bool" where
  "wf_array a \<longleftrightarrow> length (flat a) = prod_list (shape a)"

text \<open>Offset of a multi-index in row-major order, and the sample \<^verbatim>\<open>a[idx]\<close>.\<close>

definition ravel :: "nat list \<Rightarrow> nat list \<Rightarrow> nat" where
  "ravel s idx = foldl (\<lambda>acc (n, i). acc * n + i) 0 (zip s idx)"

definition item :: "'a ndarray \<Rightarrow> nat list \<Rightarrow> 'a" where
  "item a idx = flat a ! ravel (shape a) idx"

definition at3 :: "'a ndarray \<Rightarrow> nat \<Rightarrow> nat \<Rightarrow> nat \<Rightarrow> 'a" where
  "at3 a k j i = item a [k, j, i]"

text \<open>All multi-indices of a shape, in row-major order.\<close>

fun indices :: "nat list \<Rightarrow> nat list list" where
  "indices [] = [[]]"
| "indices (n # s) = concat (map (\<lambda>i. map ((#) i) (indices s)) [0..<n])"

text \<open>\<open>chunks n m xs\<close>: the first \<open>n\<close> consecutive blocks of \<open>m\<close> samples of \<open>xs\<close>.\<close>

fun chunks :: "nat \<Rightarrow> nat \<Rightarrow> 'a list \<Rightarrow> 'a list list" where
  "chunks 0 m xs = []"
| "chunks (Suc n) m xs = take m xs # chunks n m (drop m xs)"

text \<open>Iterating an array yields its sub-arrays along axis 0.\<close>

definition iterate :: "'a ndarray \<Rightarrow> error + 'a ndarray list" where
  "iterate a = (case shape a of
       [] \<Rightarrow> Inl (TypeError ''iteration over a 0-d array'')
     | n # rest \<Rightarrow> Inr (map (\<lambda>c. \<lparr>shape = rest, flat = c\<rparr>) (chunks n (prod_list rest) (flat a))))"

text \<open>\<^verbatim>\<open>itertools.chain.from_iterable(a)\<close>: the sub-arrays of the sub-arrays of \<open>a\<close>.\<close>

definition chain_from_iterable :: "'a ndarray \<Rightarrow> error + 'a ndarray list" where
  "chain_from_iterable a =
     ebind (iterate a) (\<lambda>subs.
     ebind (mapM iterate subs) (\<lambda>rows.
     Inr (concat rows)))"

text \<open>
  \<^verbatim>\<open>numpy.transpose(a, axes)\<close>: axis \<open>axes ! n\<close> of \<open>a\<close> becomes axis \<open>n\<close> of the result.
\<close>

definition source_index :: "nat list \<Rightarrow> nat list \<Rightarrow> nat list" where
  "source_index axes idx = foldl (\<lambda>y (ax, v). y[ax := v]) (replicate (length axes) 0) (zip axes idx)"

definition numpy_transpose :: "'a ndarray \<Rightarrow> nat list \<Rightarrow> error + 'a ndarray" where
  "numpy_transpose a axes =
     (if sort axes \<noteq> [0..<ndim a] then Inl (ValueError ''axes do not match array'')
      else let s = map (\<lambda>ax. shape a ! ax) axes
           in Inr \<lparr>shape = s, flat = map (\<lambda>idx. item a (source_index axes idx)) (indices s)\<rparr>)"

text \<open>\<^verbatim>\<open>a.T\<close> reverses the axes.\<close>

definition ndarray_T :: "'a ndarray \<Rightarrow> error + 'a ndarray" where
  "ndarray_T a = numpy_transpose a (rev [0..<ndim a])"

text \<open>\<^verbatim>\<open>numpy.hstack\<close> of one-dimensional arrays, and \<^verbatim>\<open>reshape\<close>.\<close>

definition numpy_hstack :: "'a list list \<Rightarrow> error + 'a list" where
  "numpy_hstack tup =
     (if tup = [] then Inl (ValueError ''need at least one array to concatenate'')
      else Inr (concat tup))"

definition ndarray_reshape :: "'a list \<Rightarrow> nat list \<Rightarrow> error + 'a ndarray" where
  "ndarray_reshape xs newshape =
     (if length xs = prod_list newshape then Inr \<lparr>shape = newshape, flat = xs\<rparr>
      else Inl (ValueError ''cannot reshape array''))"

text \<open>\<^verbatim>\<open>numpy.vstack\<close> of one-dimensional arrays: they become the rows of a 2D array.\<close>

definition numpy_vstack :: "'a list list \<Rightarrow> error + 'a ndarray" where
  "numpy_vstack tup = (case tup of
       [] \<Rightarrow> Inl (ValueError ''need at least one array to concatenate'')
     | r # rs \<Rightarrow>
         if list_all (\<lambda>x. length x = length r) rs
         then Inr \<lparr>shape = [length tup, length r], flat = concat tup\<rparr>
         else Inl (ValueError ''all the input array dimensions must match exactly''))"

text \<open>\<^verbatim>\<open>numpy.split(ary, sections)\<close>: equal sections along axis 0.\<close>

definition numpy_split :: "'a ndarray \<Rightarrow> nat \<Rightarrow> error + 'a ndarray list" where
  "numpy_split ary sections = (case shape ary of
       [] \<Rightarrow> Inl (ValueError ''array has no axis 0'')
     | n # rest \<Rightarrow>
         if sections = 0 then Inl (ValueError ''number sections must be larger than 0'')
         else if n mod sections \<noteq> 0
         then Inl (ValueError ''array split does not result in an equal division'')
         else Inr (map (\<lambda>c. \<lparr>shape = (n div sections) # rest, flat = c\<rparr>)
                    (chunks sections ((n div sections) * prod_list rest) (flat ary))))"

text \<open>\<^verbatim>\<open>numpy.asarray\<close> of a list of arrays stacks them along a new axis 0.\<close>

definition numpy_asarray :: "'a ndarray list \<Rightarrow> error + 'a ndarray" where
  "numpy_asarray xs = (case xs of
       [] \<Rightarrow> Inr \<lparr>shape = [0], flat = []\<rparr>
     | x # rest \<Rightarrow>
         if list_all (\<lambda>y. shape y = shape x) rest
         then Inr \<lparr>shape = length xs # shape x, flat = concat (map flat xs)\<rparr>
         else Inl (ValueError ''inhomogeneous shape''))"

text \<open>
  \<^verbatim>\<open>a.resize(new_shape, refcheck=False)\<close> keeps the flat buffer: it is cut, or extended
  with zeros, to the new size.
\<close>

definition ndarray_resize :: "'a::zero ndarray \<Rightarrow> nat list \<Rightarrow> 'a ndarray" where
  "ndarray_resize a new_shape =
     (let new_size = prod_list new_shape
      in \<lparr>shape = new_shape,
          flat = take new_size (flat a) @ replicate (new_size - length (flat a)) 0\<rparr>)"

text \<open>
  \<^verbatim>\<open>numpy.resize(a, new_shape)\<close> flattens \<open>a\<close> and fills the new array with repeated
  copies of it (zeros when \<open>a\<close> is empty).
\<close>

definition numpy_resize :: "'a::zero ndarray \<Rightarrow> nat list \<Rightarrow> 'a ndarray" where
  "numpy_resize a new_shape =
     (let new_size = prod_list new_shape; size_a = length (flat a)
      in if size_a = 0 \<or> new_size = 0 then \<lparr>shape = new_shape, flat = replicate new_size 0\<rparr>
         else let repeats = (new_size + size_a - 1) div size_a
              in \<lparr>shape = new_shape, flat = take new_size (concat (replicate repeats (flat a)))\<rparr>)"

section \<open>SimpleITK images\<close>

text \<open>
  An image is its sample array (as \<^verbatim>\<open>GetArrayFromImage\<close> returns it) and its spatial
  metadata.
\<close>

record ('a, 'r) image =
  pixels :: "'a ndarray"
  spacing :: "'r list"
  origin :: "'r list"
  direction :: "'r list"

definition GetArrayFromImage :: "('a, 'r) image \<Rightarrow> 'a ndarray" where
  "GetArrayFromImage img = pixels img"

text \<open>A new image has unit spacing, zero origin and the identity direction matrix.\<close>

definition GetImageFromArray :: "'a ndarray \<Rightarrow> ('a, 'r::{zero,one}) image" where
  "GetImageFromArray arr =
     (let d = ndim arr
      in \<lparr>pixels = arr, spacing = replicate d 1, origin = replicate d 0,
          direction = concat (map (\<lambda>r. map (\<lambda>c. if r = c then 1 else 0) [0..<d]) [0..<d])\<rparr>)"

text \<open>\<^verbatim>\<open>img.CopyInformation(src)\<close> requires equal sizes.\<close>

definition CopyInformation :: "('a, 'r) image \<Rightarrow> ('a, 'r) image \<Rightarrow> error + ('a, 'r) image" where
  "CopyInformation img src =
     (if shape (pixels img) \<noteq> shape (pixels src)
      then Inl (RuntimeError ''Source image size does not match this image'')
      else Inr (img\<lparr>spacing := spacing src, origin := origin src, direction := direction src\<rparr>))"

section \<open>The 1D stationary transform of pywt\<close>

text \<open>
  pywt is an external library. \<open>Wavelet\<close> resolves a wavelet name (\<open>None\<close>: the name is
  unknown), \<open>swt_coeffs\<close> gives the level-1 coefficients \<open>(cA, cD)\<close> of a line.
  \<^verbatim>\<open>pywt.swt\<close> rejects a line of odd length before it transforms anything.
\<close>

record ('w, 'a) pywt =
  Wavelet :: "string \<Rightarrow> 'w option"
  swt_coeffs :: "'a list \<Rightarrow> 'w \<Rightarrow> 'a list \<times> 'a list"

definition pywt_swt :: "('w, 'a) pywt \<Rightarrow> 'a list \<Rightarrow> 'w \<Rightarrow> error + ('a list \<times> 'a list)" where
  "pywt_swt P xs w =
     (if length xs mod 2 \<noteq> 0 then Inl (ValueError ''Length of data must be even.'')
      else Inr (swt_coeffs P xs w))"

section \<open>The axis decomposers\<close>

definition decompose_i :: "('w, 'a) pywt \<Rightarrow> 'a ndarray \<Rightarrow> 'w \<Rightarrow> error + ('a ndarray \<times> 'a ndarray)" where
  "decompose_i P data w =
     ebind (chain_from_iterable data) (\<lambda>i_arrays.
     ebind (mapM (\<lambda>i_array. pywt_swt P (flat i_array) w) i_arrays) (\<lambda>cs.
     ebind (numpy_hstack (map snd cs)) (\<lambda>h.
     ebind (ndarray_reshape h (shape data)) (\<lambda>H.
     ebind (numpy_hstack (map fst cs)) (\<lambda>l.
     ebind (ndarray_reshape l (shape data)) (\<lambda>L.
     Inr (H, L)))))))"

definition decompose_j :: "('w, 'a) pywt \<Rightarrow> 'a ndarray \<Rightarrow> 'w \<Rightarrow> error + ('a ndarray \<times> 'a ndarray)" where
  "decompose_j P data w =
     (let s = shape data in
      ebind (numpy_transpose data [0, 2, 1]) (\<lambda>t.
      ebind (chain_from_iterable t) (\<lambda>j_arrays.
      ebind (mapM (\<lambda>j_array. pywt_swt P (flat j_array) w) j_arrays) (\<lambda>cs.
      ebind (numpy_hstack (map snd cs)) (\<lambda>h.
      ebind (ndarray_reshape h [s ! 0, s ! 2, s ! 1]) (\<lambda>hr.
      ebind (numpy_transpose hr [0, 2, 1]) (\<lambda>H.
      ebind (numpy_hstack (map fst cs)) (\<lambda>l.
      ebind (ndarray_reshape l [s ! 0, s ! 2, s ! 1]) (\<lambda>lr.
      ebind (numpy_transpose lr [0, 2, 1]) (\<lambda>L.
      Inr (H, L)))))))))))"

definition decompose_k :: "('w, 'a) pywt \<Rightarrow> 'a ndarray \<Rightarrow> 'w \<Rightarrow> error + ('a ndarray \<times> 'a ndarray)" where
  "decompose_k P data w =
     ebind (numpy_transpose data [2, 1, 0]) (\<lambda>t.
     ebind (chain_from_iterable t) (\<lambda>k_arrays.
     ebind (mapM (\<lambda>k_array. pywt_swt P (flat k_array) w) k_arrays) (\<lambda>cs.
     ebind (numpy_vstack (map snd cs)) (\<lambda>vh.
     ebind (numpy_split vh (shape data ! 2)) (\<lambda>hs.
     ebind (numpy_asarray hs) (\<lambda>ha.
     ebind (ndarray_T ha) (\<lambda>H.
     ebind (numpy_vstack (map fst cs)) (\<lambda>vl.
     ebind (numpy_split vl (shape data ! 2)) (\<lambda>ls.
     ebind (numpy_asarray ls) (\<lambda>la.
     ebind (ndarray_T la) (\<lambda>L.
     Inr (H, L))))))))))))"

section \<open>The multi-level decomposition \<^verbatim>\<open>_swt3\<close>\<close>

text \<open>
  \<^verbatim>\<open>if not isinstance(wavelet, pywt.Wavelet): wavelet = pywt.Wavelet(wavelet)\<close>
\<close>

definition resolve_wavelet :: "('w, 'a) pywt \<Rightarrow> 'w pyval \<Rightarrow> error + 'w" where
  "resolve_wavelet P wavelet = (case wavelet of
       PyWavelet w \<Rightarrow> Inr w
     | PyStr name \<Rightarrow> (case Wavelet P name of
           None \<Rightarrow> Inl (ValueError ''Unknown wavelet name'')
         | Some w \<Rightarrow> Inr w)
     | _ \<Rightarrow> Inl (TypeError ''wavelet name must be a string''))"

text \<open>The body of the first loop: only the all-low-pass branch is computed.\<close>

definition warm_up_step :: "('w, 'a) pywt \<Rightarrow> 'w \<Rightarrow> 'a ndarray \<Rightarrow> error + 'a ndarray" where
  "warm_up_step P w data =
     ebind (decompose_i P data w) (\<lambda>(H, L).
     ebind (decompose_j P L w) (\<lambda>(LH, LL).
     ebind (decompose_k P LL w) (\<lambda>(LLH, LLL).
     Inr LLL)))"

fun warm_up :: "('w, 'a) pywt \<Rightarrow> 'w \<Rightarrow> nat \<Rightarrow> 'a ndarray \<Rightarrow> error + 'a ndarray" where
  "warm_up P w 0 data = Inr data"
| "warm_up P w (Suc n) data = ebind (warm_up_step P w data) (warm_up P w n)"

text \<open>
  The body of the second loop up to the dictionary \<open>dec\<close>: the seven detail sub-bands,
  in the order the dictionary literal lists them, and \<open>LLL\<close>.
\<close>

definition decompose_level ::
  "('w, 'a) pywt \<Rightarrow> 'w \<Rightarrow> 'a ndarray \<Rightarrow> error + ((string \<times> 'a ndarray) list \<times> 'a ndarray)" where
  "decompose_level P w data =
     ebind (decompose_i P data w) (\<lambda>(H, L).
     ebind (decompose_j P H w) (\<lambda>(HH, HL).
     ebind (decompose_j P L w) (\<lambda>(LH, LL).
     ebind (decompose_k P HH w) (\<lambda>(HHH, HHL).
     ebind (decompose_k P HL w) (\<lambda>(HLH, HLL).
     ebind (decompose_k P LH w) (\<lambda>(LHH, LHL).
     ebind (decompose_k P LL w) (\<lambda>(LLH, LLL).
     Inr ([(''HHH'', HHH), (''HHL'', HHL), (''HLH'', HLH), (''HLL'', HLL),
           (''LHH'', LHH), (''LHL'', LHL), (''LLH'', LLH)], LLL))))))))"

text \<open>The loop over \<open>dec\<close>: each sub-band is resized to the original shape and wrapped.\<close>

definition to_image ::
  "('a::zero, 'r::{zero,one}) image \<Rightarrow> nat list \<Rightarrow> string \<times> 'a ndarray \<Rightarrow> error + (string \<times> ('a, 'r) image)" where
  "to_image inputImage original_shape = (\<lambda>(decName, decImage).
     let decTemp = numpy_resize decImage original_shape;
         sitkImage = GetImageFromArray decTemp
     in ebind (CopyInformation sitkImage inputImage) (\<lambda>sitkImage. Inr (decName, sitkImage)))"

fun emission ::
  "('w, 'a::zero) pywt \<Rightarrow> 'w \<Rightarrow> ('a, 'r::{zero,one}) image \<Rightarrow> nat list \<Rightarrow> nat \<Rightarrow> 'a ndarray \<Rightarrow>
   (string \<times> ('a, 'r) image) list list \<Rightarrow> error + ('a ndarray \<times> (string \<times> ('a, 'r) image) list list)" where
  "emission P w inputImage original_shape 0 data ret = Inr (data, ret)"
| "emission P w inputImage original_shape (Suc n) data ret =
     ebind (decompose_level P w data) (\<lambda>(dec, LLL).
     ebind (mapM (to_image inputImage original_shape) dec) (\<lambda>dec.
     emission P w inputImage original_shape n LLL (ret @ [dec])))"

definition swt3 ::
  "('w, 'a::zero) pywt \<Rightarrow> ('a, 'r::{zero,one}) image \<Rightarrow> 'w pyval \<Rightarrow> 'w pyval \<Rightarrow> 'w pyval \<Rightarrow>
   error + (('a, 'r) image \<times> (string \<times> ('a, 'r) image) list list)" where
  "swt3 P inputImage wavelet level start_level =
     (let matrix = GetArrayFromImage inputImage in
      if ndim matrix \<noteq> 3 then Inl (ValueError ''Expected 3D data array'')
      else
        let original_shape = shape matrix;
            adjusted_shape = map (\<lambda>dim. if dim mod 2 \<noteq> 0 then dim + 1 else dim) original_shape;
            data = ndarray_resize matrix adjusted_shape
        in
        ebind (resolve_wavelet P wavelet) (\<lambda>w.
        ebind (py_int start_level) (\<lambda>start.
        ebind (warm_up P w (nat start) data) (\<lambda>data.
        ebind (py_int level) (\<lambda>lev.
        ebind (emission P w inputImage original_shape (nat lev) data []) (\<lambda>(data, ret).
        let data = numpy_resize data original_shape;
            approximation = GetImageFromArray data
        in ebind (CopyInformation approximation inputImage) (\<lambda>approximation.
           Inr (approximation, ret))))))))"

section \<open>The generator \<^verbatim>\<open>getWaveletImage\<close>\<close>

text \<open>
  Everything the generator yields, in order, when its body runs to the end; \<open>Inl\<close> when
  \<^verbatim>\<open>_swt3\<close> raises, which is before the first \<^verbatim>\<open>yield\<close>.
\<close>

definition wavelet_name :: "nat \<Rightarrow> string \<Rightarrow> string" where
  "wavelet_name idx decompositionName =
     (if idx = 1 then ''wavelet-'' @ decompositionName
      else ''wavelet'' @ str_nat idx @ ''-'' @ decompositionName)"

definition getWaveletImage_body ::
  "('w, 'a::zero) pywt \<Rightarrow> ('a, 'r::{zero,one}) image \<Rightarrow> 'w kwargs \<Rightarrow>
   error + (('a, 'r) image \<times> string \<times> 'w kwargs) list" where
  "getWaveletImage_body P inputImage kwargs =
     ebind (swt3 P inputImage (dict_get kwargs ''wavelet'' (PyStr ''coif1''))
              (dict_get kwargs ''level'' (PyInt 1)) (dict_get kwargs ''start_level'' (PyInt 0)))
       (\<lambda>(approx, ret).
          Inr (concat (map (\<lambda>(idx, wl).
                   map (\<lambda>(decompositionName, decompositionImage).
                          (decompositionImage, wavelet_name idx decompositionName, kwargs)) wl)
                 (enumerate 1 ret))
               @ [(approx,
                   (if length ret = 1 then ''wavelet-LLL''
                    else ''wavelet'' @ str_nat (length ret) @ ''-LLL''),
                   kwargs)]))"

text \<open>
  A generator object: created (its body has not started), suspended at a \<^verbatim>\<open>yield\<close>
  with the items still to come, or finished. Calling a generator function only creates
  the object; \<^verbatim>\<open>next\<close> runs the body up to the next \<^verbatim>\<open>yield\<close>.
\<close>

datatype ('i, 'x) generator = Created 'i | Suspended "'x list" | Finished

datatype 'x outcome = Yield 'x | StopIteration | Raise error

definition getWaveletImage ::
  "('a, 'r) image \<Rightarrow> 'w kwargs \<Rightarrow>
   (('a, 'r) image \<times> 'w kwargs, ('a, 'r) image \<times> string \<times> 'w kwargs) generator" where
  "getWaveletImage inputImage kwargs = Created (inputImage, kwargs)"

fun gen_next ::
  "('w, 'a::zero) pywt \<Rightarrow>
   (('a, 'r::{zero,one}) image \<times> 'w kwargs, ('a, 'r) image \<times> string \<times> 'w kwargs) generator \<Rightarrow>
   (('a, 'r) image \<times> string \<times> 'w kwargs) outcome \<times>
   (('a, 'r) image \<times> 'w kwargs, ('a, 'r) image \<times> string \<times> 'w kwargs) generator" where
  "gen_next P (Created (inputImage, kwargs)) =
     (case getWaveletImage_body P inputImage kwargs of
        Inl e \<Rightarrow> (Raise e, Finished)
      | Inr [] \<Rightarrow> (StopIteration, Finished)
      | Inr (x # xs) \<Rightarrow> (Yield x, Suspended xs))"
| "gen_next P (Suspended []) = (StopIteration, Finished)"
| "gen_next P (Suspended (x # xs)) = (Yield x, Suspended xs)"
| "gen_next P Finished = (StopIteration, Finished)"

text \<open>The number of items a generator can still yield.\<close>

definition remaining ::
  "('w, 'a::zero) pywt \<Rightarrow>
   (('a, 'r::{zero,one}) image \<times> 'w kwargs, ('a, 'r) image \<times> string \<times> 'w kwargs) generator \<Rightarrow> nat" where
  "remaining P g = (case g of
       Created (inputImage, kwargs) \<Rightarrow>
         (case getWaveletImage_body P inputImage kwargs of Inl e \<Rightarrow> 0 | Inr xs \<Rightarrow> length xs)
     | Suspended xs \<Rightarrow> length xs
     | Finished \<Rightarrow> 0)"

text \<open>\<^verbatim>\<open>list(g)\<close>: the items a generator yields until it stops, and the exception that
  stopped it, if any.\<close>

function consume ::
  "('w, 'a::zero) pywt \<Rightarrow>
   (('a, 'r::{zero,one}) image \<times> 'w kwargs, ('a, 'r) image \<times> string \<times> 'w kwargs) generator \<Rightarrow>
   (('a, 'r) image \<times> string \<times> 'w kwargs) list \<times> error option" where
  "consume P g = (case gen_next P g of
       (Yield x, g') \<Rightarrow> (case consume P g' of (xs, r) \<Rightarrow> (x # xs, r))
     | (StopIteration, g') \<Rightarrow> ([], None)
     | (Raise e, g') \<Rightarrow> ([], Some e))"
  by pat_completeness auto
termination
  apply (relation "measure (\<lambda>(P, g). remaining P g)")
   apply simp
  subgoal for P g x g' y
    by (cases "(P, g)" rule: gen_next.cases)
       (auto simp: remaining_def split: sum.splits list.splits)
  done

declare consume.simps [simp del]

section \<open>A concrete primitive\<close>

text \<open>
  An integer filter pair of Haar type on a periodic line (sum and difference of
  neighbouring samples), used to run the definitions on concrete volumes.
\<close>

definition haar_int :: "(unit, int) pywt" where
  "haar_int = \<lparr>Wavelet = (\<lambda>name. if name = ''haar'' then Some () else None),
               swt_coeffs = (\<lambda>xs w. (map2 (+) xs (rotate1 xs), map2 (-) xs (rotate1 xs)))\<rparr>"

text \<open>A two-dimensional image: not a volume.\<close>

definition plane_2x3 :: "(int, int) image" where
  "plane_2x3 = \<lparr>pixels = \<lparr>shape = [2, 3], flat = [1, 2, 3, 4, 5, 6]\<rparr>,
                spacing = [1, 1], origin = [0, 0], direction = [1, 0, 0, 1]\<rparr>"

section \<open>Tabulated arrays\<close>

text \<open>
  The samples of a three-dimensional array given by an index function, as a list of lines
  along the last axis and as a flat buffer.
\<close>

definition tab_lines :: "nat \<Rightarrow> nat \<Rightarrow> nat \<Rightarrow> (nat \<Rightarrow> nat \<Rightarrow> nat \<Rightarrow> 'a) \<Rightarrow> 'a list list" where
  "tab_lines n0 n1 n2 f = concat (map (\<lambda>x. map (\<lambda>y. map (\<lambda>z. f x y z) [0..<n2]) [0..<n1]) [0..<n0])"

definition tab3 :: "nat \<Rightarrow> nat \<Rightarrow> nat \<Rightarrow> (nat \<Rightarrow> nat \<Rightarrow> nat \<Rightarrow> 'a) \<Rightarrow> 'a list" where
  "tab3 n0 n1 n2 f = concat (tab_lines n0 n1 n2 f)"

definition arr3 :: "nat \<Rightarrow> nat \<Rightarrow> nat \<Rightarrow> (nat \<Rightarrow> nat \<Rightarrow> nat \<Rightarrow> 'a) \<Rightarrow> 'a ndarray" where
  "arr3 n0 n1 n2 f = \<lparr>shape = [n0, n1, n2], flat = tab3 n0 n1 n2 f\<rparr>"

definition volume :: "nat list \<Rightarrow> 'a ndarray \<Rightarrow> bool" where
  "volume s a \<longleftrightarrow> shape a = s \<and> wf_array a"

definition length_preserving :: "('w, 'a) pywt \<Rightarrow> bool" where
  "length_preserving P \<longleftrightarrow>
     (\<forall>xs w. even (length xs) \<longrightarrow>
        length (fst (swt_coeffs P xs w)) = length xs \<and> length (snd (swt_coeffs P xs w)) = length xs)"

text \<open>
  The axis decomposer in the words of the specification: the 1D primitive runs on every
  line of the volume along one axis, and the results are put back at the index of the
  sample they come from. \<open>H\<close> selects the detail coefficients \<open>cD\<close>, any other letter the
  approximation coefficients \<open>cA\<close>.
\<close>

definition band_coeffs :: "('w, 'a) pywt \<Rightarrow> 'w \<Rightarrow> char \<Rightarrow> 'a list \<Rightarrow> 'a list" where
  "band_coeffs P w c line =
     (if c = CHR ''H'' then snd (swt_coeffs P line w) else fst (swt_coeffs P line w))"

definition line_i :: "'a ndarray \<Rightarrow> nat \<Rightarrow> nat \<Rightarrow> 'a list" where
  "line_i a k j = map (\<lambda>i. at3 a k j i) [0..<shape a ! 2]"

definition line_j :: "'a ndarray \<Rightarrow> nat \<Rightarrow> nat \<Rightarrow> 'a list" where
  "line_j a k i = map (\<lambda>j. at3 a k j i) [0..<shape a ! 1]"

definition line_k :: "'a ndarray \<Rightarrow> nat \<Rightarrow> nat \<Rightarrow> 'a list" where
  "line_k a j i = map (\<lambda>k. at3 a k j i) [0..<shape a ! 0]"

definition spec_axis_i :: "('w, 'a) pywt \<Rightarrow> 'w \<Rightarrow> char \<Rightarrow> 'a ndarray \<Rightarrow> 'a ndarray" where
  "spec_axis_i P w c a =
     arr3 (shape a ! 0) (shape a ! 1) (shape a ! 2) (\<lambda>k j i. band_coeffs P w c (line_i a k j) ! i)"

definition spec_axis_j :: "('w, 'a) pywt \<Rightarrow> 'w \<Rightarrow> char \<Rightarrow> 'a ndarray \<Rightarrow> 'a ndarray" where
  "spec_axis_j P w c a =
     arr3 (shape a ! 0) (shape a ! 1) (shape a ! 2) (\<lambda>k j i. band_coeffs P w c (line_j a k i) ! j)"

definition spec_axis_k :: "('w, 'a) pywt \<Rightarrow> 'w \<Rightarrow> char \<Rightarrow> 'a ndarray \<Rightarrow> 'a ndarray" where
  "spec_axis_k P w c a =
     arr3 (shape a ! 0) (shape a ! 1) (shape a ! 2) (\<lambda>k j i. band_coeffs P w c (line_k a j i) ! k)"

text \<open>
  A sub-band label gives its first letter to axis i, its second to axis j and its third
  to axis k, applied in this order.
\<close>

definition spec_subband :: "('w, 'a) pywt \<Rightarrow> 'w \<Rightarrow> string \<Rightarrow> 'a ndarray \<Rightarrow> 'a ndarray" where
  "spec_subband P w label a =
     spec_axis_k P w (label ! 2) (spec_axis_j P w (label ! 1) (spec_axis_i P w (label ! 0) a))"

definition detail_labels :: "string list" where
  "detail_labels = [''HHH'', ''HHL'', ''HLH'', ''HLL'', ''LHH'', ''LHL'', ''LLH'']"

text \<open>The all-low-pass sub-band taken \<open>m\<close> times: the input of level \<open>m\<close>.\<close>

definition approx_after :: "('w, 'a) pywt \<Rightarrow> 'w \<Rightarrow> nat \<Rightarrow> 'a ndarray \<Rightarrow> 'a ndarray" where
  "approx_after P w m a = ((spec_subband P w ''LLL'') ^^ m) a"

text \<open>The working array of \<^verbatim>\<open>_swt3\<close>: the input array resized to the adjusted shape.\<close>

definition adjusted :: "nat list \<Rightarrow> nat list" where
  "adjusted s = map (\<lambda>dim. if dim mod 2 \<noteq> 0 then dim + 1 else dim) s"

definition padded :: "('a::zero, 'r) image \<Rightarrow> 'a ndarray" where
  "padded img = ndarray_resize (GetArrayFromImage img) (adjusted (shape (GetArrayFromImage img)))"

text \<open>A working array cut to the shape of the input image, with the metadata of the input.\<close>

definition emitted_image :: "('a::zero, 'r::{zero,one}) image \<Rightarrow> 'a ndarray \<Rightarrow> ('a, 'r) image" where
  "emitted_image img arr =
     (GetImageFromArray (numpy_resize arr (shape (GetArrayFromImage img))))
       \<lparr>spacing := spacing img, origin := origin img, direction := direction img\<rparr>"

definition level_result ::
  "('w, 'a::zero) pywt \<Rightarrow> 'w \<Rightarrow> ('a, 'r::{zero,one}) image \<Rightarrow> 'a ndarray \<Rightarrow> (string \<times> ('a, 'r) image) list" where
  "level_result P w img a = map (\<lambda>l. (l, emitted_image img (spec_subband P w l a))) detail_labels"

text \<open>The items of level \<open>m\<close> (counted from 0 among the emitted levels) and the last item.\<close>

definition level_items ::
  "('w, 'a::zero) pywt \<Rightarrow> 'w \<Rightarrow> ('a, 'r::{zero,one}) image \<Rightarrow> 'w kwargs \<Rightarrow> nat \<Rightarrow> nat \<Rightarrow>
   (('a, 'r) image \<times> string \<times> 'w kwargs) list" where
  "level_items P w img kwargs start m =
     map (\<lambda>l. (emitted_image img (spec_subband P w l (approx_after P w (start + m) (padded img))),
               wavelet_name (m + 1) l, kwargs)) detail_labels"

definition approximation_item ::
  "('w, 'a::zero) pywt \<Rightarrow> 'w \<Rightarrow> ('a, 'r::{zero,one}) image \<Rightarrow> 'w kwargs \<Rightarrow> nat \<Rightarrow> nat \<Rightarrow>
   ('a, 'r) image \<times> string \<times> 'w kwargs" where
  "approximation_item P w img kwargs start n =
     (emitted_image img (approx_after P w (start + n) (padded img)),
      (if n = 1 then ''wavelet-LLL'' else ''wavelet'' @ str_nat n @ ''-LLL''), kwargs)"

definition volume_2x2x3 :: "(int, int) image" where
  "volume_2x2x3 = \<lparr>pixels = \<lparr>shape = [2, 2, 3], flat = [1, 2, 3, 4, 5, 6, 7, 8, 9, 10, 11, 13]\<rparr>,
                   spacing = [2, 2, 2], origin = [5, 6, 7], direction = [1, 0, 0, 0, 1, 0, 0, 0, 1]\<rparr>"

definition two_levels :: "unit kwargs" where
  "two_levels = [''wavelet'' \<mapsto> PyStr ''haar'', ''level'' \<mapsto> PyInt 2, ''start_level'' \<mapsto> PyInt 1]"

definition cube_2x2x2 :: "int ndarray" where
  "cube_2x2x2 = \<lparr>shape = [2, 2, 2], flat = [1, 2, 3, 4, 5, 6, 7, 9]\<rparr>"

section \<open>Basic facts\<close>

lemma ebind_Inl [simp]: "ebind (Inl e) f = Inl e"
  by (simp add: ebind_def)

lemma ebind_Inr [simp]: "ebind (Inr x) f = f x"
  by (simp add: ebind_def)

lemma mapM_Inr: "(\<And>x. x \<in> set xs \<Longrightarrow> f x = Inr (g x)) \<Longrightarrow> mapM f xs = Inr (map g xs)"
  by (induction xs) simp_all

lemma length_chunks [simp]: "length (chunks n m xs) = n"
  by (induction n arbitrary: xs) simp_all

lemma concat_chunks: "concat (chunks n m xs) = take (n * m) xs"
proof (induction n arbitrary: xs)
  case 0
  show ?case by simp
next
  case (Suc n)
  have "take m xs @ take (n * m) (drop m xs) = take (m + n * m) xs"
    by (simp add: take_add)
  with Suc show ?case by simp
qed

lemma chunks_concat: "\<forall>l\<in>set ls. length l = m \<Longrightarrow> chunks (length ls) m (concat ls) = ls"
  by (induction ls) simp_all

lemma chunks_concat_prefix:
  "\<forall>l\<in>set ls. length l = m \<Longrightarrow> n = length ls \<Longrightarrow> chunks n m (concat ls @ rest) = ls"
  by (induction ls arbitrary: n) auto

lemma length_concat_uniform: "\<forall>l\<in>set ls. length l = m \<Longrightarrow> length (concat ls) = length ls * m"
  by (induction ls) simp_all

lemma length_tab_lines [simp]: "length (tab_lines n0 n1 n2 f) = n0 * n1"
  unfolding tab_lines_def by (rule trans [OF length_concat_uniform [where m = n1]]) auto

lemma tab_lines_uniform: "l \<in> set (tab_lines n0 n1 n2 f) \<Longrightarrow> length l = n2"
  by (auto simp: tab_lines_def)

lemma length_tab3 [simp]: "length (tab3 n0 n1 n2 f) = n0 * n1 * n2"
  unfolding tab3_def
  by (rule trans [OF length_concat_uniform [where m = n2]]) (auto simp: tab_lines_uniform)

lemma chunks_tab3: "chunks (n0 * n1) n2 (tab3 n0 n1 n2 f) = tab_lines n0 n1 n2 f"
  unfolding tab3_def using chunks_concat [of "tab_lines n0 n1 n2 f" n2]
  by (simp add: tab_lines_uniform)


lemma index_bound: "x < n \<Longrightarrow> i < m \<Longrightarrow> x * m + i < n * (m::nat)"
proof -
  assume a: "x < n" "i < m"
  then have "x * m + i < Suc x * m" by simp
  also have "\<dots> \<le> n * m" using a by (intro mult_le_mono1) simp
  finally show ?thesis .
qed

lemma length_concat_map_upt:
  "(\<And>x. x < n \<Longrightarrow> length (g x) = m) \<Longrightarrow> length (concat (map g [0..<n])) = n * m"
  by (induction n) simp_all

lemma nth_concat_map_upt:
  "(\<And>x. x < n \<Longrightarrow> length (g x) = m) \<Longrightarrow> x < n \<Longrightarrow> i < m \<Longrightarrow>
   concat (map g [0..<n]) ! (x * m + i) = g x ! i"
proof (induction n)
  case 0
  then show ?case by simp
next
  case (Suc n)
  have len: "length (concat (map g [0..<n])) = n * m"
    using Suc.prems(1) by (intro length_concat_map_upt) simp
  show ?case
  proof (cases "x < n")
    case True
    then have "x * m + i < n * m" using Suc.prems(3) by (rule index_bound)
    then show ?thesis
      using Suc.IH [OF _ True Suc.prems(3)] Suc.prems(1) len by (simp add: nth_append)
  next
    case False
    then have "x = n" using Suc.prems(2) by simp
    then show ?thesis using len by (simp add: nth_append)
  qed
qed

lemma concat_concat_map: "concat (concat (map f xs)) = concat (map (\<lambda>x. concat (f x)) xs)"
  by (induction xs) simp_all

lemma tab3_nested:
  "tab3 n0 n1 n2 f = concat (map (\<lambda>x. concat (map (\<lambda>y. map (\<lambda>z. f x y z) [0..<n2]) [0..<n1])) [0..<n0])"
  by (simp add: tab3_def tab_lines_def concat_concat_map)

lemma nth_tab3:
  assumes "x < n0" "y < n1" "z < n2"
  shows "tab3 n0 n1 n2 f ! ((x * n1 + y) * n2 + z) = f x y z"
proof -
  let ?g = "\<lambda>x. concat (map (\<lambda>y. map (\<lambda>z. f x y z) [0..<n2]) [0..<n1])"
  have lg: "\<And>x. length (?g x) = n1 * n2"
    by (rule length_concat_map_upt) simp
  have b: "y * n2 + z < n1 * n2" using assms by (intro index_bound)
  have "tab3 n0 n1 n2 f ! (x * (n1 * n2) + (y * n2 + z)) = ?g x ! (y * n2 + z)"
    unfolding tab3_nested using lg assms(1) b by (intro nth_concat_map_upt) simp_all
  also have "\<dots> = map (\<lambda>z. f x y z) [0..<n2] ! z"
    using assms by (intro nth_concat_map_upt) simp_all
  also have "\<dots> = f x y z" using assms by simp
  finally show ?thesis by (simp add: algebra_simps)
qed

lemma map_indices3:
  "map F (indices [n0, n1, n2]) = tab3 n0 n1 n2 (\<lambda>x y z. F [x, y, z])"
  by (simp add: tab3_nested map_concat comp_def)

lemma length_indices [simp]: "length (indices s) = prod_list s"
proof (induction s)
  case Nil
  show ?case by simp
next
  case (Cons n s)
  have "length (concat (map (\<lambda>i. map ((#) i) (indices s)) [0..<n])) = n * prod_list s"
    using Cons by (intro length_concat_map_upt) simp
  then show ?case by simp
qed

lemma upt_prod: "[0..<n * m] = concat (map (\<lambda>k. map (\<lambda>j. k * m + j) [0..<m]) [0..<n])"
proof (induction n)
  case 0
  show ?case by simp
next
  case (Suc n)
  have e: "Suc n * m = n * m + m" by simp
  have "[0..<n * m + m] = [0..<n * m] @ [n * m..<n * m + m]"
    by (rule upt_add_eq_append) simp
  moreover have "[n * m..<n * m + m] = map (\<lambda>j. n * m + j) [0..<m]"
  proof -
    have "map (\<lambda>j. j + n * m) [0..<m] = [n * m..<m + n * m]" by (rule map_add_upt)
    moreover have "(\<lambda>j. j + n * m) = (\<lambda>j. n * m + j)" by (rule ext) simp
    moreover have "m + n * m = n * m + m" by simp
    ultimately show ?thesis by metis
  qed
  ultimately have "[0..<Suc n * m] = [0..<n * m] @ map (\<lambda>j. n * m + j) [0..<m]"
    unfolding e by simp
  then show ?case using Suc by simp
qed

lemma upt_3: "[0..<3] = [0, 1, 2]"
  by (simp add: upt_rec)

lemma ravel3 [simp]: "ravel [n0, n1, n2] [x, y, z] = (x * n1 + y) * n2 + z"
  by (simp add: ravel_def)

lemma at3_arr3: "x < n0 \<Longrightarrow> y < n1 \<Longrightarrow> z < n2 \<Longrightarrow> at3 (arr3 n0 n1 n2 f) x y z = f x y z"
  by (simp add: at3_def item_def arr3_def nth_tab3)

lemma tab_lines_cong:
  "(\<And>x y z. x < n0 \<Longrightarrow> y < n1 \<Longrightarrow> z < n2 \<Longrightarrow> f x y z = g x y z) \<Longrightarrow>
   tab_lines n0 n1 n2 f = tab_lines n0 n1 n2 g"
  unfolding tab_lines_def
  by (intro arg_cong [where f = concat] map_cong refl) simp

lemma tab3_cong:
  "(\<And>x y z. x < n0 \<Longrightarrow> y < n1 \<Longrightarrow> z < n2 \<Longrightarrow> f x y z = g x y z) \<Longrightarrow>
   tab3 n0 n1 n2 f = tab3 n0 n1 n2 g"
  unfolding tab3_def by (simp cong: tab_lines_cong)

lemma arr3_cong:
  "(\<And>x y z. x < n0 \<Longrightarrow> y < n1 \<Longrightarrow> z < n2 \<Longrightarrow> f x y z = g x y z) \<Longrightarrow>
   arr3 n0 n1 n2 f = arr3 n0 n1 n2 g"
  unfolding arr3_def by (simp cong: tab3_cong)

lemma volume_arr3 [simp]: "volume [n0, n1, n2] (arr3 n0 n1 n2 f)"
  by (simp add: volume_def arr3_def wf_array_def)

lemma map_nth_upt: "m \<le> length xs \<Longrightarrow> map (\<lambda>i. xs ! i) [0..<m] = take m xs"
  by (rule nth_equalityI) simp_all

lemma list_rows:
  "length xs = n * m \<Longrightarrow> concat (map (\<lambda>r. map (\<lambda>i. xs ! (r * m + i)) [0..<m]) [0..<n]) = xs"
proof (induction n arbitrary: xs)
  case 0
  then show ?case by simp
next
  case (Suc n)
  let ?g = "\<lambda>r. map (\<lambda>i. xs ! (r * m + i)) [0..<m]"
  have len: "length (drop m xs) = n * m" using Suc.prems by simp
  have "concat (map ?g [0..<Suc n]) = ?g 0 @ concat (map (\<lambda>r. ?g (Suc r)) [0..<n])"
    by (simp add: upt_conv_Cons map_Suc_upt [symmetric] comp_def del: upt_Suc)
  moreover have "?g 0 = take m xs"
    using Suc.prems by (simp add: map_nth_upt)
  moreover have "(\<lambda>r. ?g (Suc r)) = (\<lambda>r. map (\<lambda>i. drop m xs ! (r * m + i)) [0..<m])"
    using Suc.prems by (intro ext) (simp add: add.assoc)
  ultimately show ?case using Suc.IH [OF len] by simp
qed

lemma volume_is_arr3:
  assumes "volume [n0, n1, n2] a"
  shows "a = arr3 n0 n1 n2 (at3 a)"
proof -
  have s: "shape a = [n0, n1, n2]" and l: "length (flat a) = (n0 * n1) * n2"
    using assms by (simp_all add: volume_def wf_array_def)
  have "tab_lines n0 n1 n2 (at3 a) = map (\<lambda>r. map (\<lambda>i. flat a ! (r * n2 + i)) [0..<n2]) [0..<n0 * n1]"
    unfolding upt_prod [of n0 n1] by (simp add: tab_lines_def map_concat comp_def at3_def item_def s)
  then have "tab3 n0 n1 n2 (at3 a) = flat a"
    unfolding tab3_def using list_rows [OF l] by simp
  then show ?thesis using s by (simp add: arr3_def)
qed

lemma chunks_add: "chunks (a + b) m xs = chunks a m xs @ chunks b m (drop (a * m) xs)"
  by (induction a arbitrary: xs) (simp_all add: add.commute)

lemma chunks_take: "n * m \<le> l \<Longrightarrow> chunks n m (take l xs) = chunks n m xs"
proof (induction n arbitrary: xs l)
  case 0
  show ?case by simp
next
  case (Suc n)
  have "n * m \<le> l - m" using Suc.prems by simp
  then have "chunks n m (take (l - m) (drop m xs)) = chunks n m (drop m xs)"
    by (rule Suc.IH)
  moreover have "m \<le> l" using Suc.prems by simp
  ultimately show ?case by (simp add: drop_take min_absorb2)
qed

lemma concat_map_chunks: "concat (map (chunks b m) (chunks a (b * m) xs)) = chunks (a * b) m xs"
proof (induction a arbitrary: xs)
  case 0
  show ?case by simp
next
  case (Suc a)
  have "chunks (Suc a * b) m xs = chunks (b + a * b) m xs" by simp
  also have "\<dots> = chunks b m xs @ chunks (a * b) m (drop (b * m) xs)"
    by (rule chunks_add)
  finally show ?case using Suc by (simp add: chunks_take)
qed

lemma iterate_Cons:
  "shape a = n # rest \<Longrightarrow>
   iterate a = Inr (map (\<lambda>c. \<lparr>shape = rest, flat = c\<rparr>) (chunks n (prod_list rest) (flat a)))"
  by (simp add: iterate_def)

lemma chain_from_iterable_3d:
  assumes "shape a = [n0, n1, n2]"
  shows "chain_from_iterable a = Inr (map (\<lambda>c. \<lparr>shape = [n2], flat = c\<rparr>) (chunks (n0 * n1) n2 (flat a)))"
proof -
  let ?subs = "map (\<lambda>c. \<lparr>shape = [n1, n2], flat = c\<rparr>) (chunks n0 (n1 * n2) (flat a))"
  have 1: "iterate a = Inr ?subs"
    using assms by (simp add: iterate_Cons)
  have 2: "mapM iterate ?subs
         = Inr (map (\<lambda>s. map (\<lambda>c. \<lparr>shape = [n2], flat = c\<rparr>) (chunks n1 n2 (flat s))) ?subs)"
    by (rule mapM_Inr) (auto simp: iterate_Cons)
  have 3: "concat (map (\<lambda>s. map (\<lambda>c. \<lparr>shape = [n2], flat = c\<rparr>) (chunks n1 n2 (flat s))) ?subs)
        = map (\<lambda>c. \<lparr>shape = [n2], flat = c\<rparr>) (concat (map (chunks n1 n2) (chunks n0 (n1 * n2) (flat a))))"
    by (simp add: map_concat comp_def)
  show ?thesis
    unfolding chain_from_iterable_def 1 2 ebind_Inr 3 concat_map_chunks ..
qed

lemma lines_of_arr3:
  "chain_from_iterable (arr3 n0 n1 n2 f)
     = Inr (map (\<lambda>c. \<lparr>shape = [n2], flat = c\<rparr>) (tab_lines n0 n1 n2 f))"
  using chain_from_iterable_3d [of "arr3 n0 n1 n2 f" n0 n1 n2]
  by (simp add: arr3_def chunks_tab3)

lemma transpose_arr3:
  assumes "sort axes = [0, 1, 2]"
    and "\<And>x y z. source_index axes [x, y, z] = [p x y z, q x y z, r x y z]"
    and "map (\<lambda>ax. [n0, n1, n2] ! ax) axes = [m0, m1, m2]"
    and "\<And>x y z. x < m0 \<Longrightarrow> y < m1 \<Longrightarrow> z < m2 \<Longrightarrow> p x y z < n0 \<and> q x y z < n1 \<and> r x y z < n2"
  shows "numpy_transpose (arr3 n0 n1 n2 f) axes
       = Inr (arr3 m0 m1 m2 (\<lambda>x y z. f (p x y z) (q x y z) (r x y z)))"
proof -
  let ?A = "arr3 n0 n1 n2 f"
  have so: "sort axes = [0..<ndim ?A]"
    using assms(1) by (simp add: ndim_def arr3_def upt_3)
  have sh: "map (\<lambda>ax. shape ?A ! ax) axes = [m0, m1, m2]"
    using assms(3) by (simp add: arr3_def)
  have fl: "map (\<lambda>idx. item ?A (source_index axes idx)) (indices [m0, m1, m2])
          = tab3 m0 m1 m2 (\<lambda>x y z. item ?A (source_index axes [x, y, z]))"
    by (rule map_indices3)
  have eq: "tab3 m0 m1 m2 (\<lambda>x y z. item ?A (source_index axes [x, y, z]))
          = tab3 m0 m1 m2 (\<lambda>x y z. f (p x y z) (q x y z) (r x y z))"
  proof (rule tab3_cong)
    fix x y z assume "x < m0" "y < m1" "z < m2"
    then have "p x y z < n0 \<and> q x y z < n1 \<and> r x y z < n2" by (rule assms(4))
    then show "item ?A (source_index axes [x, y, z]) = f (p x y z) (q x y z) (r x y z)"
      unfolding assms(2) using at3_arr3 [of "p x y z" n0 "q x y z" n1 "r x y z" n2 f]
      by (simp add: at3_def)
  qed
  show ?thesis
    unfolding numpy_transpose_def Let_def sh fl eq using so by (simp add: arr3_def)
qed

lemma transpose_021:
  "numpy_transpose (arr3 n0 n1 n2 f) [0, 2, 1] = Inr (arr3 n0 n2 n1 (\<lambda>x y z. f x z y))"
  by (rule transpose_arr3) (simp_all add: source_index_def)

lemma transpose_210:
  "numpy_transpose (arr3 n0 n1 n2 f) [2, 1, 0] = Inr (arr3 n2 n1 n0 (\<lambda>x y z. f z y x))"
  by (rule transpose_arr3) (simp_all add: source_index_def)

lemma T_arr3:
  "ndarray_T (arr3 n0 n1 n2 f) = Inr (arr3 n2 n1 n0 (\<lambda>x y z. f z y x))"
proof -
  have r: "rev [0..<ndim (arr3 n0 n1 n2 f)] = [2, 1, 0]"
    by (simp add: ndim_def arr3_def upt_3)
  show ?thesis
    unfolding ndarray_T_def r by (rule transpose_210)
qed

lemma map_tab_lines:
  assumes "\<And>l. length l = n2 \<Longrightarrow> length (g l) = n2"
  shows "map g (tab_lines n0 n1 n2 f) = tab_lines n0 n1 n2 (\<lambda>x y z. g (map (f x y) [0..<n2]) ! z)"
proof -
  have "\<And>x y. g (map (f x y) [0..<n2]) = map (\<lambda>z. g (map (f x y) [0..<n2]) ! z) [0..<n2]"
  proof -
    fix x y
    have "length (g (map (f x y) [0..<n2])) = n2" by (rule assms) simp
    then show "g (map (f x y) [0..<n2]) = map (\<lambda>z. g (map (f x y) [0..<n2]) ! z) [0..<n2]"
      using map_nth [of "g (map (f x y) [0..<n2])"] by simp
  qed
  then show ?thesis
    by (simp add: tab_lines_def map_concat comp_def)
qed

lemma swt_lines:
  assumes "even n2"
  shows "mapM (\<lambda>row. pywt_swt P (flat row) w) (map (\<lambda>c. \<lparr>shape = [n2], flat = c\<rparr>) (tab_lines n0 n1 n2 f))
       = Inr (map (\<lambda>c. swt_coeffs P c w) (tab_lines n0 n1 n2 f))"
proof -
  have "mapM (\<lambda>row. pywt_swt P (flat row) w) (map (\<lambda>c. \<lparr>shape = [n2], flat = c\<rparr>) (tab_lines n0 n1 n2 f))
       = Inr (map (\<lambda>row. swt_coeffs P (flat row) w) (map (\<lambda>c. \<lparr>shape = [n2], flat = c\<rparr>) (tab_lines n0 n1 n2 f)))"
    using assms by (intro mapM_Inr) (auto simp: pywt_swt_def tab_lines_uniform)
  then show ?thesis by (simp add: comp_def)
qed

lemma coeffs_length:
  "length_preserving P \<Longrightarrow> even (length l) \<Longrightarrow>
   length (fst (swt_coeffs P l w)) = length l \<and> length (snd (swt_coeffs P l w)) = length l"
  by (simp add: length_preserving_def)


lemma shape_arr3 [simp]: "shape (arr3 n0 n1 n2 f) = [n0, n1, n2]"
  by (simp add: arr3_def)

lemma tab_lines_nonempty: "0 < n0 \<Longrightarrow> 0 < n1 \<Longrightarrow> tab_lines n0 n1 n2 f \<noteq> []"
proof
  assume "0 < n0" "0 < n1" "tab_lines n0 n1 n2 f = []"
  then have "length (tab_lines n0 n1 n2 f) = 0" by simp
  with \<open>0 < n0\<close> \<open>0 < n1\<close> show False by simp
qed

lemma hstack_reshape:
  assumes "0 < n0" "0 < n1"
  shows "ebind (numpy_hstack (tab_lines n0 n1 n2 G)) (\<lambda>h. ebind (ndarray_reshape h [n0, n1, n2]) K)
       = K (arr3 n0 n1 n2 G)"
  using tab_lines_nonempty [OF assms, of n2 G]
  by (simp add: numpy_hstack_def ndarray_reshape_def tab3_def [symmetric] arr3_def)

lemma coeff_lines:
  assumes "length_preserving P" "even n2"
  shows "map snd (map (\<lambda>c. swt_coeffs P c w) (tab_lines n0 n1 n2 f))
           = tab_lines n0 n1 n2 (\<lambda>x y z. snd (swt_coeffs P (map (f x y) [0..<n2]) w) ! z)"
    and "map fst (map (\<lambda>c. swt_coeffs P c w) (tab_lines n0 n1 n2 f))
           = tab_lines n0 n1 n2 (\<lambda>x y z. fst (swt_coeffs P (map (f x y) [0..<n2]) w) ! z)"
proof -
  have "map (\<lambda>c. snd (swt_coeffs P c w)) (tab_lines n0 n1 n2 f)
      = tab_lines n0 n1 n2 (\<lambda>x y z. snd (swt_coeffs P (map (f x y) [0..<n2]) w) ! z)"
    using assms by (intro map_tab_lines) (simp add: coeffs_length)
  then show "map snd (map (\<lambda>c. swt_coeffs P c w) (tab_lines n0 n1 n2 f))
           = tab_lines n0 n1 n2 (\<lambda>x y z. snd (swt_coeffs P (map (f x y) [0..<n2]) w) ! z)"
    by (simp add: comp_def)
  have "map (\<lambda>c. fst (swt_coeffs P c w)) (tab_lines n0 n1 n2 f)
      = tab_lines n0 n1 n2 (\<lambda>x y z. fst (swt_coeffs P (map (f x y) [0..<n2]) w) ! z)"
    using assms by (intro map_tab_lines) (simp add: coeffs_length)
  then show "map fst (map (\<lambda>c. swt_coeffs P c w) (tab_lines n0 n1 n2 f))
           = tab_lines n0 n1 n2 (\<lambda>x y z. fst (swt_coeffs P (map (f x y) [0..<n2]) w) ! z)"
    by (simp add: comp_def)
qed

lemma decompose_i_arr3:
  assumes "length_preserving P" "0 < n0" "0 < n1" "even n2"
  shows "decompose_i P (arr3 n0 n1 n2 f) w
       = Inr (arr3 n0 n1 n2 (\<lambda>x y z. snd (swt_coeffs P (map (f x y) [0..<n2]) w) ! z),
              arr3 n0 n1 n2 (\<lambda>x y z. fst (swt_coeffs P (map (f x y) [0..<n2]) w) ! z))"
  unfolding decompose_i_def lines_of_arr3 ebind_Inr swt_lines [OF assms(4)]
    coeff_lines [OF assms(1,4)] shape_arr3 hstack_reshape [OF assms(2,3)] ..

lemma decompose_j_arr3:
  assumes "length_preserving P" "0 < n0" "0 < n2" "even n1"
  shows "decompose_j P (arr3 n0 n1 n2 f) w
       = Inr (arr3 n0 n1 n2 (\<lambda>x y z. snd (swt_coeffs P (map (\<lambda>y. f x y z) [0..<n1]) w) ! y),
              arr3 n0 n1 n2 (\<lambda>x y z. fst (swt_coeffs P (map (\<lambda>y. f x y z) [0..<n1]) w) ! y))"
proof -
  have s: "shape (arr3 n0 n1 n2 f) ! 0 = n0" "shape (arr3 n0 n1 n2 f) ! 2 = n2"
    "shape (arr3 n0 n1 n2 f) ! 1 = n1"
    by simp_all
  show ?thesis
    unfolding decompose_j_def Let_def transpose_021 ebind_Inr lines_of_arr3 swt_lines [OF assms(4)]
      coeff_lines [OF assms(1,4)] s hstack_reshape [OF assms(2,3)] ..
qed


lemma vstack_lines:
  assumes "0 < n0" "0 < n1"
  shows "numpy_vstack (tab_lines n0 n1 n2 G) = Inr \<lparr>shape = [n0 * n1, n2], flat = tab3 n0 n1 n2 G\<rparr>"
proof (cases "tab_lines n0 n1 n2 G")
  case Nil
  with tab_lines_nonempty [OF assms, of n2 G] show ?thesis by simp
next
  case (Cons r rs)
  have "\<forall>l\<in>set (r # rs). length l = n2"
    unfolding Cons [symmetric] by (simp add: tab_lines_uniform)
  moreover have "length (r # rs) = n0 * n1"
    unfolding Cons [symmetric] by simp
  ultimately show ?thesis
    unfolding numpy_vstack_def tab3_def Cons by (simp add: list_all_iff)
qed

lemma asarray_uniform:
  assumes "xs \<noteq> []" "\<forall>y\<in>set xs. shape y = s"
  shows "numpy_asarray xs = Inr \<lparr>shape = length xs # s, flat = concat (map flat xs)\<rparr>"
  using assms by (cases xs) (simp_all add: numpy_asarray_def list_all_iff)

lemma split_asarray:
  assumes "0 < n0"
  shows "ebind (numpy_split \<lparr>shape = [n0 * n1, n2], flat = tab3 n0 n1 n2 G\<rparr> n0)
           (\<lambda>hs. ebind (numpy_asarray hs) K) = K (arr3 n0 n1 n2 G)"
proof -
  let ?cs = "chunks n0 (n1 * n2) (tab3 n0 n1 n2 G)"
  let ?hs = "map (\<lambda>c. \<lparr>shape = [n1, n2], flat = c\<rparr>) ?cs"
  have sp: "numpy_split \<lparr>shape = [n0 * n1, n2], flat = tab3 n0 n1 n2 G\<rparr> n0 = Inr ?hs"
    using assms by (simp add: numpy_split_def)
  have ne: "?hs \<noteq> []"
  proof
    assume "?hs = []"
    then have "length ?hs = 0" by simp
    with assms show False by simp
  qed
  have "concat (map flat ?hs) = concat ?cs"
    by (simp add: comp_def)
  also have "\<dots> = tab3 n0 n1 n2 G"
    by (simp add: concat_chunks)
  finally have fl: "concat (map flat ?hs) = tab3 n0 n1 n2 G" .
  have "numpy_asarray ?hs = Inr \<lparr>shape = length ?hs # [n1, n2], flat = concat (map flat ?hs)\<rparr>"
    using ne by (rule asarray_uniform) auto
  then have "numpy_asarray ?hs = Inr (arr3 n0 n1 n2 G)"
    unfolding fl by (simp add: arr3_def)
  then show ?thesis
    unfolding sp ebind_Inr by simp
qed

lemma decompose_k_arr3:
  assumes "length_preserving P" "0 < n1" "0 < n2" "even n0"
  shows "decompose_k P (arr3 n0 n1 n2 f) w
       = Inr (arr3 n0 n1 n2 (\<lambda>x y z. snd (swt_coeffs P (map (\<lambda>x. f x y z) [0..<n0]) w) ! x),
              arr3 n0 n1 n2 (\<lambda>x y z. fst (swt_coeffs P (map (\<lambda>x. f x y z) [0..<n0]) w) ! x))"
proof -
  have s: "shape (arr3 n0 n1 n2 f) ! 2 = n2"
    by simp
  show ?thesis
    unfolding decompose_k_def transpose_210 ebind_Inr lines_of_arr3 swt_lines [OF assms(4)]
      coeff_lines [OF assms(1,4)] s vstack_lines [OF assms(3,2)] split_asarray [OF assms(3)]
      T_arr3 ..
qed

lemma spec_axis_i_arr3:
  "spec_axis_i P w c (arr3 n0 n1 n2 f)
     = arr3 n0 n1 n2 (\<lambda>x y z. band_coeffs P w c (map (f x y) [0..<n2]) ! z)"
proof -
  have "\<And>x y. x < n0 \<Longrightarrow> y < n1 \<Longrightarrow> line_i (arr3 n0 n1 n2 f) x y = map (f x y) [0..<n2]"
    by (simp add: line_i_def at3_arr3)
  then have "arr3 n0 n1 n2 (\<lambda>k j i. band_coeffs P w c (line_i (arr3 n0 n1 n2 f) k j) ! i)
      = arr3 n0 n1 n2 (\<lambda>x y z. band_coeffs P w c (map (f x y) [0..<n2]) ! z)"
    by (intro arr3_cong) simp
  then show ?thesis
    by (simp add: spec_axis_i_def)
qed

lemma spec_axis_j_arr3:
  "spec_axis_j P w c (arr3 n0 n1 n2 f)
     = arr3 n0 n1 n2 (\<lambda>x y z. band_coeffs P w c (map (\<lambda>y. f x y z) [0..<n1]) ! y)"
proof -
  have "\<And>x z. x < n0 \<Longrightarrow> z < n2 \<Longrightarrow> line_j (arr3 n0 n1 n2 f) x z = map (\<lambda>y. f x y z) [0..<n1]"
    by (simp add: line_j_def at3_arr3)
  then have "arr3 n0 n1 n2 (\<lambda>k j i. band_coeffs P w c (line_j (arr3 n0 n1 n2 f) k i) ! j)
      = arr3 n0 n1 n2 (\<lambda>x y z. band_coeffs P w c (map (\<lambda>y. f x y z) [0..<n1]) ! y)"
    by (intro arr3_cong) simp
  then show ?thesis
    by (simp add: spec_axis_j_def)
qed

lemma spec_axis_k_arr3:
  "spec_axis_k P w c (arr3 n0 n1 n2 f)
     = arr3 n0 n1 n2 (\<lambda>x y z. band_coeffs P w c (map (\<lambda>x. f x y z) [0..<n0]) ! x)"
proof -
  have "\<And>y z. y < n1 \<Longrightarrow> z < n2 \<Longrightarrow> line_k (arr3 n0 n1 n2 f) y z = map (\<lambda>x. f x y z) [0..<n0]"
    by (simp add: line_k_def at3_arr3)
  then have "arr3 n0 n1 n2 (\<lambda>k j i. band_coeffs P w c (line_k (arr3 n0 n1 n2 f) j i) ! k)
      = arr3 n0 n1 n2 (\<lambda>x y z. band_coeffs P w c (map (\<lambda>x. f x y z) [0..<n0]) ! x)"
    by (intro arr3_cong) simp
  then show ?thesis
    by (simp add: spec_axis_k_def)
qed

lemma volume_spec_axis [simp]:
  "shape a = [n0, n1, n2] \<Longrightarrow> volume [n0, n1, n2] (spec_axis_i P w c a)"
  "shape a = [n0, n1, n2] \<Longrightarrow> volume [n0, n1, n2] (spec_axis_j P w c a)"
  "shape a = [n0, n1, n2] \<Longrightarrow> volume [n0, n1, n2] (spec_axis_k P w c a)"
  by (simp_all add: spec_axis_i_def spec_axis_j_def spec_axis_k_def)

lemma volume_shape: "volume s a \<Longrightarrow> shape a = s"
  by (simp add: volume_def)

lemma decompose_i_spec:
  assumes "volume [n0, n1, n2] a" "length_preserving P" "0 < n0" "0 < n1" "even n2"
  shows "decompose_i P a w = Inr (spec_axis_i P w (CHR ''H'') a, spec_axis_i P w (CHR ''L'') a)"
proof -
  obtain f where a: "a = arr3 n0 n1 n2 f"
    using volume_is_arr3 [OF assms(1)] ..
  show ?thesis
    unfolding a spec_axis_i_arr3 decompose_i_arr3 [OF assms(2-5)]
    by (simp add: band_coeffs_def)
qed

lemma decompose_j_spec:
  assumes "volume [n0, n1, n2] a" "length_preserving P" "0 < n0" "0 < n2" "even n1"
  shows "decompose_j P a w = Inr (spec_axis_j P w (CHR ''H'') a, spec_axis_j P w (CHR ''L'') a)"
proof -
  obtain f where a: "a = arr3 n0 n1 n2 f"
    using volume_is_arr3 [OF assms(1)] ..
  show ?thesis
    unfolding a spec_axis_j_arr3 decompose_j_arr3 [OF assms(2-5)]
    by (simp add: band_coeffs_def)
qed

lemma decompose_k_spec:
  assumes "volume [n0, n1, n2] a" "length_preserving P" "0 < n1" "0 < n2" "even n0"
  shows "decompose_k P a w = Inr (spec_axis_k P w (CHR ''H'') a, spec_axis_k P w (CHR ''L'') a)"
proof -
  obtain f where a: "a = arr3 n0 n1 n2 f"
    using volume_is_arr3 [OF assms(1)] ..
  show ?thesis
    unfolding a spec_axis_k_arr3 decompose_k_arr3 [OF assms(2-5)]
    by (simp add: band_coeffs_def)
qed

lemma shape_spec_axis [simp]:
  "shape (spec_axis_i P w c a) = [shape a ! 0, shape a ! 1, shape a ! 2]"
  "shape (spec_axis_j P w c a) = [shape a ! 0, shape a ! 1, shape a ! 2]"
  "shape (spec_axis_k P w c a) = [shape a ! 0, shape a ! 1, shape a ! 2]"
  by (simp_all add: spec_axis_i_def spec_axis_j_def spec_axis_k_def)

lemma volume_spec_subband:
  "shape a = [n0, n1, n2] \<Longrightarrow> volume [n0, n1, n2] (spec_subband P w l a)"
  by (simp add: spec_subband_def)

lemma decompose_level_spec:
  assumes v: "volume [n0, n1, n2] a" and P: "length_preserving P"
    and pos: "0 < n0" "0 < n1" "0 < n2" and ev: "even n0" "even n1" "even n2"
  shows "decompose_level P w a
       = Inr (map (\<lambda>l. (l, spec_subband P w l a)) detail_labels, spec_subband P w ''LLL'' a)"
proof -
  have s: "shape a = [n0, n1, n2]" using v by (rule volume_shape)
  note i = decompose_i_spec [OF _ P pos(1) pos(2) ev(3)]
  note j = decompose_j_spec [OF _ P pos(1) pos(3) ev(2)]
  note k = decompose_k_spec [OF _ P pos(2) pos(3) ev(1)]
  have vi: "\<And>c. volume [n0, n1, n2] (spec_axis_i P w c a)"
    using s by simp
  have vij: "\<And>c d. volume [n0, n1, n2] (spec_axis_j P w d (spec_axis_i P w c a))"
    using s by simp
  show ?thesis
    unfolding decompose_level_def i [OF v] ebind_Inr prod.case j [OF vi] k [OF vij]
    by (simp add: detail_labels_def spec_subband_def)
qed

lemma warm_up_step_spec:
  assumes v: "volume [n0, n1, n2] a" and P: "length_preserving P"
    and pos: "0 < n0" "0 < n1" "0 < n2" and ev: "even n0" "even n1" "even n2"
  shows "warm_up_step P w a = Inr (spec_subband P w ''LLL'' a)"
proof -
  have s: "shape a = [n0, n1, n2]" using v by (rule volume_shape)
  note i = decompose_i_spec [OF _ P pos(1) pos(2) ev(3)]
  note j = decompose_j_spec [OF _ P pos(1) pos(3) ev(2)]
  note k = decompose_k_spec [OF _ P pos(2) pos(3) ev(1)]
  have vi: "\<And>c. volume [n0, n1, n2] (spec_axis_i P w c a)"
    using s by simp
  have vij: "\<And>c d. volume [n0, n1, n2] (spec_axis_j P w d (spec_axis_i P w c a))"
    using s by simp
  show ?thesis
    unfolding warm_up_step_def i [OF v] ebind_Inr prod.case j [OF vi] k [OF vij]
    by (simp add: spec_subband_def)
qed

lemma volume_approx_after:
  "volume [n0, n1, n2] a \<Longrightarrow> volume [n0, n1, n2] (approx_after P w m a)"
proof (induction m)
  case 0
  then show ?case by (simp add: approx_after_def)
next
  case (Suc m)
  then have "shape (approx_after P w m a) = [n0, n1, n2]" by (simp add: volume_def)
  then have "volume [n0, n1, n2] (spec_subband P w ''LLL'' (approx_after P w m a))"
    by (rule volume_spec_subband)
  then show ?case by (simp add: approx_after_def)
qed

lemma approx_after_Suc: "approx_after P w (Suc m) a = approx_after P w m (spec_subband P w ''LLL'' a)"
  by (simp add: approx_after_def funpow_swap1)

lemma approx_after_add:
  "approx_after P w m (approx_after P w n a) = approx_after P w (n + m) a"
  by (simp add: approx_after_def funpow_add add.commute)

lemma warm_up_spec:
  assumes P: "length_preserving P"
    and pos: "0 < n0" "0 < n1" "0 < n2" and ev: "even n0" "even n1" "even n2"
  shows "volume [n0, n1, n2] a \<Longrightarrow> warm_up P w m a = Inr (approx_after P w m a)"
proof (induction m arbitrary: a)
  case 0
  show ?case by (simp add: approx_after_def)
next
  case (Suc m)
  have v: "volume [n0, n1, n2] (spec_subband P w ''LLL'' a)"
    using Suc.prems by (intro volume_spec_subband) (simp add: volume_def)
  show ?case
    unfolding warm_up.simps warm_up_step_spec [OF Suc.prems P pos ev] ebind_Inr
      Suc.IH [OF v] approx_after_Suc ..
qed

lemma shape_numpy_resize [simp]: "shape (numpy_resize a s) = s"
  by (simp add: numpy_resize_def Let_def)

lemma shape_ndarray_resize [simp]: "shape (ndarray_resize a s) = s"
  by (simp add: ndarray_resize_def Let_def)

lemma wf_ndarray_resize: "wf_array (ndarray_resize a s)"
  by (simp add: ndarray_resize_def Let_def wf_array_def)

lemma copy_information_resized:
  "CopyInformation (GetImageFromArray (numpy_resize arr (shape (GetArrayFromImage img)))) img
     = Inr (emitted_image img arr)"
  by (simp add: CopyInformation_def GetImageFromArray_def Let_def emitted_image_def
      GetArrayFromImage_def)

lemma to_image_spec:
  "to_image img (shape (GetArrayFromImage img)) (l, arr) = Inr (l, emitted_image img arr)"
  by (simp add: to_image_def Let_def copy_information_resized)

lemma mapM_to_image:
  "mapM (to_image img (shape (GetArrayFromImage img))) (map (\<lambda>l. (l, g l)) ls)
     = Inr (map (\<lambda>l. (l, emitted_image img (g l))) ls)"
  by (induction ls) (simp_all add: to_image_spec)

lemma emission_spec:
  assumes P: "length_preserving P"
    and pos: "0 < n0" "0 < n1" "0 < n2" and ev: "even n0" "even n1" "even n2"
  shows "volume [n0, n1, n2] a \<Longrightarrow>
     emission P w img (shape (GetArrayFromImage img)) n a ret
       = Inr (approx_after P w n a,
              ret @ map (\<lambda>m. level_result P w img (approx_after P w m a)) [0..<n])"
proof (induction n arbitrary: a ret)
  case 0
  show ?case by (simp add: approx_after_def)
next
  case (Suc n)
  let ?LLL = "spec_subband P w ''LLL'' a"
  have v: "volume [n0, n1, n2] ?LLL"
    using Suc.prems by (intro volume_spec_subband) (simp add: volume_def)
  have m: "map (\<lambda>m. level_result P w img (approx_after P w m a)) [0..<Suc n]
         = level_result P w img a # map (\<lambda>m. level_result P w img (approx_after P w m ?LLL)) [0..<n]"
    by (simp add: upt_conv_Cons map_Suc_upt [symmetric] comp_def approx_after_Suc del: upt_Suc)
       (simp add: approx_after_def)
  show ?case
    unfolding emission.simps decompose_level_spec [OF Suc.prems P pos ev] ebind_Inr prod.case
      mapM_to_image Suc.IH [OF v] m
    by (simp add: level_result_def approx_after_Suc)
qed

lemma adjusted_3d: "adjusted [d0, d1, d2] = [d0 + d0 mod 2, d1 + d1 mod 2, d2 + d2 mod 2]"
  by (auto simp: adjusted_def)

lemma volume_padded:
  "shape (GetArrayFromImage img) = s \<Longrightarrow> volume (adjusted s) (padded img)"
  by (simp add: padded_def volume_def wf_ndarray_resize)

lemma even_adjusted: "even (d + d mod 2 :: nat)"
  by presburger

lemma resolve_wavelet_PyStr:
  "Wavelet P name = Some w \<Longrightarrow> resolve_wavelet P (PyStr name) = Inr w"
  by (simp add: resolve_wavelet_def)

text \<open>What \<^verbatim>\<open>_swt3\<close> returns on a volume.\<close>

lemma swt3_spec:
  assumes P: "length_preserving P"
    and s: "shape (GetArrayFromImage img) = [d0, d1, d2]"
    and pos: "0 < d0" "0 < d1" "0 < d2"
    and w: "resolve_wavelet P wavelet = Inr w"
  shows "swt3 P img wavelet (PyInt lev) (PyInt start)
       = Inr (emitted_image img (approx_after P w (nat start + nat lev) (padded img)),
              map (\<lambda>m. level_result P w img (approx_after P w (nat start + m) (padded img)))
                [0..<nat lev])"
proof -
  let ?n0 = "d0 + d0 mod 2" and ?n1 = "d1 + d1 mod 2" and ?n2 = "d2 + d2 mod 2"
  have v: "volume [?n0, ?n1, ?n2] (padded img)"
    using volume_padded [OF s] by (simp add: adjusted_3d)
  have pos': "0 < ?n0" "0 < ?n1" "0 < ?n2" using pos by simp_all
  have ev: "even ?n0" "even ?n1" "even ?n2" by (rule even_adjusted)+
  have v': "volume [?n0, ?n1, ?n2] (approx_after P w (nat start) (padded img))"
    using v by (rule volume_approx_after)
  have nd: "ndim (GetArrayFromImage img) = 3" using s by (simp add: ndim_def)
  have pd: "ndarray_resize (GetArrayFromImage img)
              (map (\<lambda>dim. if dim mod 2 \<noteq> 0 then dim + 1 else dim) (shape (GetArrayFromImage img)))
            = padded img"
    by (simp add: padded_def adjusted_def)
  show ?thesis
    unfolding swt3_def Let_def pd w ebind_Inr
    using nd
    by (simp add: py_int_def warm_up_spec [OF P pos' ev v]
        emission_spec [OF P pos' ev v'] copy_information_resized approx_after_add)
qed

lemma enumerate_map_upt: "enumerate k (map f [0..<n]) = map (\<lambda>m. (k + m, f m)) [0..<n]"
  by (rule nth_equalityI) (simp_all add: enumerate_eq_zip)

lemma getWaveletImage_body_spec:
  assumes P: "length_preserving P"
    and s: "shape (GetArrayFromImage img) = [d0, d1, d2]"
    and pos: "0 < d0" "0 < d1" "0 < d2"
    and w: "resolve_wavelet P (dict_get kwargs ''wavelet'' (PyStr ''coif1'')) = Inr w"
    and l: "dict_get kwargs ''level'' (PyInt 1) = PyInt lev"
    and st: "dict_get kwargs ''start_level'' (PyInt 0) = PyInt start"
  shows "getWaveletImage_body P img kwargs
       = Inr (concat (map (level_items P w img kwargs (nat start)) [0..<nat lev])
              @ [approximation_item P w img kwargs (nat start) (nat lev)])"
  unfolding getWaveletImage_body_def l st swt3_spec [OF P s pos w] ebind_Inr prod.case
    enumerate_map_upt
  by (simp add: comp_def level_items_def [abs_def] level_result_def approximation_item_def)

lemma consume_Suspended: "consume P (Suspended xs) = (xs, None)"
  by (induction xs) (simp_all add: consume.simps)

lemma consume_body:
  "consume P (getWaveletImage img kwargs)
     = (case getWaveletImage_body P img kwargs of Inl e \<Rightarrow> ([], Some e) | Inr items \<Rightarrow> (items, None))"
proof (cases "getWaveletImage_body P img kwargs")
  case (Inl e)
  then show ?thesis by (simp add: getWaveletImage_def consume.simps)
next
  case (Inr items)
  then show ?thesis
    by (cases items) (simp_all add: getWaveletImage_def consume.simps [of P "Created _"] consume_Suspended)
qed

lemma length_level_items [simp]: "length (level_items P w img kwargs start m) = 7"
  by (simp add: level_items_def detail_labels_def)

lemma length_detail_items:
  "length (concat (map (level_items P w img kwargs start) [0..<n])) = n * 7"
  by (rule length_concat_map_upt) simp

lemma nth_detail_items:
  "m < n \<Longrightarrow> p < 7 \<Longrightarrow>
   concat (map (level_items P w img kwargs start) [0..<n]) ! (m * 7 + p)
     = level_items P w img kwargs start m ! p"
  by (rule nth_concat_map_upt) simp_all

lemma length_preserving_haar_int: "length_preserving haar_int"
  by (simp add: length_preserving_def haar_int_def)

lemma length_detail_labels: "length detail_labels = 7"
  by (simp add: detail_labels_def)

lemma shape_3d:
  assumes "ndim a = 3" "0 \<notin> set (shape a)"
  obtains d0 d1 d2 where "shape a = [d0, d1, d2]" "0 < d0" "0 < d1" "0 < d2"
proof -
  from assms(1) obtain d0 d1 d2 where s: "shape a = [d0, d1, d2]"
    by (auto simp: ndim_def length_Suc_conv numeral_3_eq_3)
  with assms(2) have "0 < d0" "0 < d1" "0 < d2" by simp_all
  with s show ?thesis by (rule that)
qed

lemma ceil_div_covers: "0 < s \<Longrightarrow> n \<le> (n + s - 1) div s * (s::nat)"
proof -
  assume "0 < s"
  then have "(n + s - 1) mod s < s" by simp
  moreover have "(n + s - 1) div s * s + (n + s - 1) mod s = n + s - 1" by simp
  ultimately show ?thesis using \<open>0 < s\<close> by linarith
qed

lemma wf_numpy_resize: "wf_array (numpy_resize a s)"
proof (cases "length (flat a) = 0 \<or> prod_list s = 0")
  case True
  then show ?thesis by (auto simp: numpy_resize_def Let_def wf_array_def)
next
  case False
  then have "prod_list s \<le> (prod_list s + length (flat a) - 1) div length (flat a) * length (flat a)"
    by (intro ceil_div_covers) simp
  moreover have "length (concat (replicate r (flat a))) = r * length (flat a)" for r
    by (induction r) simp_all
  ultimately show ?thesis using False
    by (simp add: numpy_resize_def Let_def wf_array_def)
qed

lemma emitted_image_facts:
  "shape (GetArrayFromImage (emitted_image img arr)) = shape (GetArrayFromImage img)"
  "wf_array (GetArrayFromImage (emitted_image img arr))"
  "spacing (emitted_image img arr) = spacing img"
  "origin (emitted_image img arr) = origin img"
  "direction (emitted_image img arr) = direction img"
  by (simp_all add: emitted_image_def GetImageFromArray_def GetArrayFromImage_def Let_def
      wf_numpy_resize)

lemma consume_spec:
  assumes "length_preserving P"
    and "ndim (GetArrayFromImage img) = 3"
    and "0 \<notin> set (shape (GetArrayFromImage img))"
    and "resolve_wavelet P (dict_get kwargs ''wavelet'' (PyStr ''coif1'')) = Inr w"
    and "dict_get kwargs ''level'' (PyInt 1) = PyInt lev"
    and "dict_get kwargs ''start_level'' (PyInt 0) = PyInt start"
  shows "consume P (getWaveletImage img kwargs)
       = (concat (map (level_items P w img kwargs (nat start)) [0..<nat lev])
            @ [approximation_item P w img kwargs (nat start) (nat lev)], None)"
proof -
  from assms(2,3) obtain d0 d1 d2
    where s: "shape (GetArrayFromImage img) = [d0, d1, d2]" and pos: "0 < d0" "0 < d1" "0 < d2"
    by (rule shape_3d)
  show ?thesis
    unfolding consume_body getWaveletImage_body_spec [OF assms(1) s pos assms(4-6)] by simp
qed

text \<open>
  C2: on a volume whose dimensions are all at least 1, with a length-preserving
  primitive, a known wavelet and integer level and start level, the generator runs to the
  end, and every volume it yields (the detail sub-bands of every level and the
  approximation) has the shape of the input array, a sample buffer of that size, and the
  spacing, origin and direction of the input image.
\<close>

theorem emitted_volumes_keep_shape_and_metadata:
  assumes "length_preserving P"
    and "ndim (GetArrayFromImage img) = 3"
    and "0 \<notin> set (shape (GetArrayFromImage img))"
    and "resolve_wavelet P (dict_get kwargs ''wavelet'' (PyStr ''coif1'')) = Inr w"
    and "dict_get kwargs ''level'' (PyInt 1) = PyInt lev"
    and "dict_get kwargs ''start_level'' (PyInt 0) = PyInt start"
  shows "\<exists>items. consume P (getWaveletImage img kwargs) = (items, None)
     \<and> (\<forall>(v, name, kw) \<in> set items.
           shape (GetArrayFromImage v) = shape (GetArrayFromImage img)
         \<and> wf_array (GetArrayFromImage v)
         \<and> spacing v = spacing img \<and> origin v = origin img \<and> direction v = direction img)"
  unfolding consume_spec [OF assms]
  by (auto simp: level_items_def approximation_item_def emitted_image_facts)


lemma example_run:
  "length_preserving haar_int"
  "ndim (GetArrayFromImage volume_2x2x3) = 3"
  "0 \<notin> set (shape (GetArrayFromImage volume_2x2x3))"
  "resolve_wavelet haar_int (dict_get two_levels ''wavelet'' (PyStr ''coif1'')) = Inr ()"
  "dict_get two_levels ''level'' (PyInt 1) = PyInt 2"
  "dict_get two_levels ''start_level'' (PyInt 0) = PyInt 1"
proof -
  show "length_preserving haar_int"
    by (rule length_preserving_haar_int)
qed (simp_all add: ndim_def GetArrayFromImage_def volume_2x2x3_def
      two_levels_def dict_get_def resolve_wavelet_def haar_int_def)

theorem emitted_volumes_keep_shape_and_metadata_witness:
  "length_preserving haar_int
   \<and> ndim (GetArrayFromImage volume_2x2x3) = 3
   \<and> 0 \<notin> set (shape (GetArrayFromImage volume_2x2x3))
   \<and> resolve_wavelet haar_int (dict_get two_levels ''wavelet'' (PyStr ''coif1'')) = Inr ()
   \<and> dict_get two_levels ''level'' (PyInt 1) = PyInt 2
   \<and> dict_get two_levels ''start_level'' (PyInt 0) = PyInt 1
   \<and> (\<exists>items. consume haar_int (getWaveletImage volume_2x2x3 two_levels) = (items, None)
     \<and> (\<forall>(v, name, kw) \<in> set items.
           shape (GetArrayFromImage v) = [2, 2, 3]
         \<and> wf_array (GetArrayFromImage v)
         \<and> spacing v = [2, 2, 2] \<and> origin v = [5, 6, 7]
         \<and> direction v = [1, 0, 0, 0, 1, 0, 0, 0, 1]))"
proof -
  have "shape (GetArrayFromImage volume_2x2x3) = [2, 2, 3]" "spacing volume_2x2x3 = [2, 2, 2]"
    "origin volume_2x2x3 = [5, 6, 7]" "direction volume_2x2x3 = [1, 0, 0, 0, 1, 0, 0, 0, 1]"
    by (simp_all add: volume_2x2x3_def GetArrayFromImage_def)
  then show ?thesis
    using example_run emitted_volumes_keep_shape_and_metadata [OF example_run]
    by simp
qed

text \<open>
  C3: under the same conditions, with level count \<open>n \<ge> 1\<close> and start level \<open>\<ge> 0\<close>, the
  generator yields exactly \<open>7 n + 1\<close> items. Item \<open>7 m + p\<close> (\<open>m < n\<close>, \<open>p < 7\<close>) is the
  \<open>p\<close>-th detail sub-band of emitted level \<open>m + 1\<close>, computed from the approximation after
  \<open>start + m\<close> levels; the last item is the approximation after \<open>start + n\<close> levels.
\<close>

theorem level_count_law:
  assumes "length_preserving P"
    and "ndim (GetArrayFromImage img) = 3"
    and "0 \<notin> set (shape (GetArrayFromImage img))"
    and "resolve_wavelet P (dict_get kwargs ''wavelet'' (PyStr ''coif1'')) = Inr w"
    and "dict_get kwargs ''level'' (PyInt 1) = PyInt lev"
    and "dict_get kwargs ''start_level'' (PyInt 0) = PyInt start"
    and "1 \<le> lev" and "0 \<le> start"
  shows "\<exists>items. consume P (getWaveletImage img kwargs) = (items, None)
     \<and> length items = 7 * nat lev + 1
     \<and> (\<forall>m<nat lev. \<forall>p<7. items ! (7 * m + p)
           = (emitted_image img
                (spec_subband P w (detail_labels ! p) (approx_after P w (nat start + m) (padded img))),
              wavelet_name (m + 1) (detail_labels ! p), kwargs))
     \<and> items ! (7 * nat lev)
           = (emitted_image img (approx_after P w (nat start + nat lev) (padded img)),
              (if lev = 1 then ''wavelet-LLL'' else ''wavelet'' @ str_nat (nat lev) @ ''-LLL''), kwargs)
     \<and> last items = items ! (7 * nat lev)"
proof -
  let ?d = "concat (map (level_items P w img kwargs (nat start)) [0..<nat lev])"
  let ?a = "approximation_item P w img kwargs (nat start) (nat lev)"
  have len: "length ?d = 7 * nat lev"
    by (simp add: length_detail_items)
  have det: "(?d @ [?a]) ! (7 * m + p)
           = (emitted_image img
                (spec_subband P w (detail_labels ! p) (approx_after P w (nat start + m) (padded img))),
              wavelet_name (m + 1) (detail_labels ! p), kwargs)"
    if "m < nat lev" "p < 7" for m p
  proof -
    have "7 * m + p < 7 * nat lev" using that by simp
    then have "(?d @ [?a]) ! (7 * m + p) = ?d ! (m * 7 + p)"
      using len by (simp add: nth_append mult.commute)
    also have "\<dots> = level_items P w img kwargs (nat start) m ! p"
      using that by (rule nth_detail_items)
    finally show ?thesis
      using that by (simp add: level_items_def length_detail_labels)
  qed
  have "nat lev = 1 \<longleftrightarrow> lev = 1" by auto
  then have app: "(?d @ [?a]) ! (7 * nat lev)
       = (emitted_image img (approx_after P w (nat start + nat lev) (padded img)),
          (if lev = 1 then ''wavelet-LLL'' else ''wavelet'' @ str_nat (nat lev) @ ''-LLL''), kwargs)"
    using len by (simp add: nth_append approximation_item_def)
  have "last (?d @ [?a]) = (?d @ [?a]) ! (7 * nat lev)"
    using len by (simp add: nth_append)
  then show ?thesis
    unfolding consume_spec [OF assms(1-6)] using len det app by simp
qed


lemma str_nat_digit: "n < 10 \<Longrightarrow> str_nat n = [digit_char n]"
  by (simp add: str_nat.simps)

lemma str_nat_2: "str_nat 2 = ''2''"
  by code_simp

theorem level_count_law_witness:
  "length_preserving haar_int
   \<and> ndim (GetArrayFromImage volume_2x2x3) = 3
   \<and> 0 \<notin> set (shape (GetArrayFromImage volume_2x2x3))
   \<and> resolve_wavelet haar_int (dict_get two_levels ''wavelet'' (PyStr ''coif1'')) = Inr ()
   \<and> dict_get two_levels ''level'' (PyInt 1) = PyInt 2
   \<and> dict_get two_levels ''start_level'' (PyInt 0) = PyInt 1
   \<and> (1::int) \<le> 2 \<and> (0::int) \<le> 1
   \<and> (\<exists>items. consume haar_int (getWaveletImage volume_2x2x3 two_levels) = (items, None)
        \<and> length items = 15
        \<and> last items
            = (emitted_image volume_2x2x3 (approx_after haar_int () 3 (padded volume_2x2x3)),
               ''wavelet2-LLL'', two_levels))"
proof -
  have h: "(1::int) \<le> 2" "(0::int) \<le> 1" by simp_all
  from level_count_law [OF example_run h]
  obtain items where "consume haar_int (getWaveletImage volume_2x2x3 two_levels) = (items, None)"
    and "length items = 7 * nat 2 + 1"
    and "items ! (7 * nat 2)
           = (emitted_image volume_2x2x3 (approx_after haar_int () (nat 1 + nat 2) (padded volume_2x2x3)),
              (if (2::int) = 1 then ''wavelet-LLL'' else ''wavelet'' @ str_nat (nat 2) @ ''-LLL''),
              two_levels)"
    and "last items = items ! (7 * nat 2)"
    by blast
  then have "consume haar_int (getWaveletImage volume_2x2x3 two_levels) = (items, None)
        \<and> length items = 15
        \<and> last items
            = (emitted_image volume_2x2x3 (approx_after haar_int () 3 (padded volume_2x2x3)),
               ''wavelet2-LLL'', two_levels)"
    by (simp add: str_nat_2 numeral_3_eq_3)
  then show ?thesis
    using example_run h by blast
qed

lemma at3_spec_axis:
  assumes "shape a = [n0, n1, n2]" "k < n0" "j < n1" "i < n2"
  shows "at3 (spec_axis_i P w c a) k j i = band_coeffs P w c (line_i a k j) ! i"
    and "at3 (spec_axis_j P w c a) k j i = band_coeffs P w c (line_j a k i) ! j"
    and "at3 (spec_axis_k P w c a) k j i = band_coeffs P w c (line_k a j i) ! k"
  using assms by (simp_all add: spec_axis_i_def spec_axis_j_def spec_axis_k_def at3_arr3)

text \<open>
  C6: on a working volume (every dimension even and at least 2) and with a
  length-preserving primitive, \<^verbatim>\<open>_decompose_i\<close>, \<^verbatim>\<open>_decompose_j\<close> and \<^verbatim>\<open>_decompose_k\<close>
  return the detail (H) and approximation (L) coefficients of the lines along axis i, j
  and k, each coefficient at the index of the sample it comes from; and one level of
  \<^verbatim>\<open>_swt3\<close> gives to the label \<open>[c1, c2, c3]\<close> the volume obtained along axis i with
  outcome \<open>c1\<close>, then along axis j with outcome \<open>c2\<close>, then along axis k with outcome \<open>c3\<close>.
\<close>

theorem labels_follow_axis_order:
  assumes "volume [n0, n1, n2] data" and "length_preserving P"
    and "0 < n0" "0 < n1" "0 < n2" and "even n0" "even n1" "even n2"
  shows "decompose_i P data w = Inr (spec_axis_i P w (CHR ''H'') data, spec_axis_i P w (CHR ''L'') data)
     \<and> decompose_j P data w = Inr (spec_axis_j P w (CHR ''H'') data, spec_axis_j P w (CHR ''L'') data)
     \<and> decompose_k P data w = Inr (spec_axis_k P w (CHR ''H'') data, spec_axis_k P w (CHR ''L'') data)
     \<and> (\<forall>c k j i. k < n0 \<longrightarrow> j < n1 \<longrightarrow> i < n2 \<longrightarrow>
            at3 (spec_axis_i P w c data) k j i = band_coeffs P w c (line_i data k j) ! i
          \<and> at3 (spec_axis_j P w c data) k j i = band_coeffs P w c (line_j data k i) ! j
          \<and> at3 (spec_axis_k P w c data) k j i = band_coeffs P w c (line_k data j i) ! k)
     \<and> (\<forall>line. band_coeffs P w (CHR ''H'') line = snd (swt_coeffs P line w)
              \<and> band_coeffs P w (CHR ''L'') line = fst (swt_coeffs P line w))
     \<and> decompose_level P w data
         = Inr ([(''HHH'', spec_subband P w ''HHH'' data), (''HHL'', spec_subband P w ''HHL'' data),
                 (''HLH'', spec_subband P w ''HLH'' data), (''HLL'', spec_subband P w ''HLL'' data),
                 (''LHH'', spec_subband P w ''LHH'' data), (''LHL'', spec_subband P w ''LHL'' data),
                 (''LLH'', spec_subband P w ''LLH'' data)],
                spec_subband P w ''LLL'' data)
     \<and> (\<forall>c1 c2 c3. spec_subband P w [c1, c2, c3] data
            = spec_axis_k P w c3 (spec_axis_j P w c2 (spec_axis_i P w c1 data)))"
proof -
  have s: "shape data = [n0, n1, n2]" using assms(1) by (rule volume_shape)
  have "decompose_level P w data
         = Inr ([(''HHH'', spec_subband P w ''HHH'' data), (''HHL'', spec_subband P w ''HHL'' data),
                 (''HLH'', spec_subband P w ''HLH'' data), (''HLL'', spec_subband P w ''HLL'' data),
                 (''LHH'', spec_subband P w ''LHH'' data), (''LHL'', spec_subband P w ''LHL'' data),
                 (''LLH'', spec_subband P w ''LLH'' data)],
                spec_subband P w ''LLL'' data)"
    unfolding decompose_level_spec [OF assms] by (simp add: detail_labels_def)
  moreover have "\<forall>c1 c2 c3. spec_subband P w [c1, c2, c3] data
            = spec_axis_k P w c3 (spec_axis_j P w c2 (spec_axis_i P w c1 data))"
    by (simp add: spec_subband_def)
  moreover have "\<forall>line. band_coeffs P w (CHR ''H'') line = snd (swt_coeffs P line w)
              \<and> band_coeffs P w (CHR ''L'') line = fst (swt_coeffs P line w)"
    by (simp add: band_coeffs_def)
  moreover note decompose_i_spec [OF assms(1,2,3,4,8)] decompose_j_spec [OF assms(1,2,3,5,7)]
    decompose_k_spec [OF assms(1,2,4,5,6)]
  ultimately show ?thesis
    by (simp add: at3_spec_axis [OF s])
qed

theorem labels_follow_axis_order_witness:
  "volume [2, 2, 2] cube_2x2x2 \<and> length_preserving haar_int
   \<and> (0::nat) < 2 \<and> even (2::nat)
   \<and> decompose_i haar_int cube_2x2x2 ()
       = Inr (spec_axis_i haar_int () (CHR ''H'') cube_2x2x2, spec_axis_i haar_int () (CHR ''L'') cube_2x2x2)
   \<and> decompose_level haar_int () cube_2x2x2
         = Inr ([(''HHH'', spec_subband haar_int () ''HHH'' cube_2x2x2),
                 (''HHL'', spec_subband haar_int () ''HHL'' cube_2x2x2),
                 (''HLH'', spec_subband haar_int () ''HLH'' cube_2x2x2),
                 (''HLL'', spec_subband haar_int () ''HLL'' cube_2x2x2),
                 (''LHH'', spec_subband haar_int () ''LHH'' cube_2x2x2),
                 (''LHL'', spec_subband haar_int () ''LHL'' cube_2x2x2),
                 (''LLH'', spec_subband haar_int () ''LLH'' cube_2x2x2)],
                spec_subband haar_int () ''LLL'' cube_2x2x2)
   \<and> at3 (spec_axis_j haar_int () (CHR ''H'') cube_2x2x2) 0 1 0
       = band_coeffs haar_int () (CHR ''H'') (line_j cube_2x2x2 0 0) ! 1"
proof -
  have v: "volume [2, 2, 2] cube_2x2x2"
    by (simp add: volume_def wf_array_def cube_2x2x2_def)
  have p: "(0::nat) < 2" and e: "even (2::nat)" by simp_all
  show ?thesis
    using v length_preserving_haar_int p e
      labels_follow_axis_order [OF v length_preserving_haar_int p p p e e e, of "()"]
    by simp
qed


lemma map_of_level_result:
  "l \<in> set detail_labels \<Longrightarrow>
   map_of (level_result P w img a) l = Some (emitted_image img (spec_subband P w l a))"
  by (simp add: level_result_def map_of_map_restrict)

lemma map_fst_level_result: "map fst (level_result P w img a) = detail_labels"
  by (simp add: level_result_def comp_def)

text \<open>
  C4: on a valid run, \<^verbatim>\<open>_swt3\<close> returns one dictionary per emitted level; the keys of each
  are exactly the seven labels HHH, HHL, HLH, HLL, LHH, LHL, LLH, each once, and never
  LLL. The volume under a label is the sub-band of that label of the level's input; the
  LLL sub-band of a level is the input of the next level, and the one of the last level is
  the approximation.
\<close>

theorem subband_completeness:
  assumes "length_preserving P"
    and "ndim (GetArrayFromImage img) = 3"
    and "0 \<notin> set (shape (GetArrayFromImage img))"
    and "resolve_wavelet P wavelet = Inr w"
  shows "\<exists>approx ret. swt3 P img wavelet (PyInt lev) (PyInt start) = Inr (approx, ret)
     \<and> length ret = nat lev
     \<and> (\<forall>wl\<in>set ret.
            map fst wl = [''HHH'', ''HHL'', ''HLH'', ''HLL'', ''LHH'', ''LHL'', ''LLH'']
          \<and> distinct (map fst wl)
          \<and> set (map fst wl) = {''HHH'', ''HHL'', ''HLH'', ''HLL'', ''LHH'', ''LHL'', ''LLH''}
          \<and> ''LLL'' \<notin> set (map fst wl))
     \<and> (\<forall>m<nat lev. \<forall>l\<in>set (map fst (ret ! m)).
            map_of (ret ! m) l
              = Some (emitted_image img
                  (spec_subband P w l (approx_after P w (nat start + m) (padded img)))))
     \<and> approx = emitted_image img (approx_after P w (nat start + nat lev) (padded img))
     \<and> (\<forall>m. approx_after P w (Suc m) (padded img)
              = spec_subband P w ''LLL'' (approx_after P w m (padded img)))"
proof -
  from assms(2,3) obtain d0 d1 d2
    where s: "shape (GetArrayFromImage img) = [d0, d1, d2]" and pos: "0 < d0" "0 < d1" "0 < d2"
    by (rule shape_3d)
  let ?ret = "map (\<lambda>m. level_result P w img (approx_after P w (nat start + m) (padded img)))
                [0..<nat lev]"
  have keys: "map fst wl = [''HHH'', ''HHL'', ''HLH'', ''HLL'', ''LHH'', ''LHL'', ''LLH'']
          \<and> distinct (map fst wl)
          \<and> set (map fst wl) = {''HHH'', ''HHL'', ''HLH'', ''HLL'', ''LHH'', ''LHL'', ''LLH''}
          \<and> ''LLL'' \<notin> set (map fst wl)" if "wl \<in> set ?ret" for wl
  proof -
    from that obtain m where "wl = level_result P w img (approx_after P w (nat start + m) (padded img))"
      by auto
    then have "map fst wl = [''HHH'', ''HHL'', ''HLH'', ''HLL'', ''LHH'', ''LHL'', ''LLH'']"
      by (simp add: map_fst_level_result detail_labels_def)
    then show ?thesis by simp
  qed
  have vals: "map_of (?ret ! m) l
              = Some (emitted_image img
                  (spec_subband P w l (approx_after P w (nat start + m) (padded img))))"
    if "m < nat lev" "l \<in> set (map fst (?ret ! m))" for m l
    using that by (simp add: map_fst_level_result map_of_level_result)
  have next_level: "\<forall>m. approx_after P w (Suc m) (padded img)
              = spec_subband P w ''LLL'' (approx_after P w m (padded img))"
    by (simp add: approx_after_def)
  have len: "length ?ret = nat lev"
    by simp
  have K: "\<forall>wl\<in>set ?ret.
            map fst wl = [''HHH'', ''HHL'', ''HLH'', ''HLL'', ''LHH'', ''LHL'', ''LLH'']
          \<and> distinct (map fst wl)
          \<and> set (map fst wl) = {''HHH'', ''HHL'', ''HLH'', ''HLL'', ''LHH'', ''LHL'', ''LLH''}
          \<and> ''LLL'' \<notin> set (map fst wl)"
    using keys by blast
  have V: "\<forall>m<nat lev. \<forall>l\<in>set (map fst (?ret ! m)).
            map_of (?ret ! m) l
              = Some (emitted_image img
                  (spec_subband P w l (approx_after P w (nat start + m) (padded img))))"
    using vals by blast
  show ?thesis
  proof (intro exI conjI)
    show "swt3 P img wavelet (PyInt lev) (PyInt start)
        = Inr (emitted_image img (approx_after P w (nat start + nat lev) (padded img)), ?ret)"
      by (rule swt3_spec [OF assms(1) s pos assms(4)])
    show "length ?ret = nat lev" by (rule len)
    show "\<forall>wl\<in>set ?ret.
            map fst wl = [''HHH'', ''HHL'', ''HLH'', ''HLL'', ''LHH'', ''LHL'', ''LLH'']
          \<and> distinct (map fst wl)
          \<and> set (map fst wl) = {''HHH'', ''HHL'', ''HLH'', ''HLL'', ''LHH'', ''LHL'', ''LLH''}
          \<and> ''LLL'' \<notin> set (map fst wl)"
      by (rule K)
    show "\<forall>m<nat lev. \<forall>l\<in>set (map fst (?ret ! m)).
            map_of (?ret ! m) l
              = Some (emitted_image img
                  (spec_subband P w l (approx_after P w (nat start + m) (padded img))))"
      by (rule V)
    show "emitted_image img (approx_after P w (nat start + nat lev) (padded img))
        = emitted_image img (approx_after P w (nat start + nat lev) (padded img))"
      by (rule refl)
    show "\<forall>m. approx_after P w (Suc m) (padded img)
              = spec_subband P w ''LLL'' (approx_after P w m (padded img))"
      by (rule next_level)
  qed
qed

lemma resolve_haar: "resolve_wavelet haar_int (PyStr ''haar'') = Inr ()"
  by (simp add: resolve_wavelet_def haar_int_def)

theorem subband_completeness_witness:
  "length_preserving haar_int
   \<and> ndim (GetArrayFromImage volume_2x2x3) = 3
   \<and> 0 \<notin> set (shape (GetArrayFromImage volume_2x2x3))
   \<and> resolve_wavelet haar_int (PyStr ''haar'') = Inr ()
   \<and> (\<exists>approx ret. swt3 haar_int volume_2x2x3 (PyStr ''haar'') (PyInt 2) (PyInt 1) = Inr (approx, ret)
     \<and> length ret = 2
     \<and> (\<forall>wl\<in>set ret.
            map fst wl = [''HHH'', ''HHL'', ''HLH'', ''HLL'', ''LHH'', ''LHL'', ''LLH'']
          \<and> distinct (map fst wl)
          \<and> set (map fst wl) = {''HHH'', ''HHL'', ''HLH'', ''HLL'', ''LHH'', ''LHL'', ''LLH''}
          \<and> ''LLL'' \<notin> set (map fst wl)))"
proof -
  from subband_completeness [OF example_run(1-3) resolve_haar, of 2 1]
  obtain approx ret where "swt3 haar_int volume_2x2x3 (PyStr ''haar'') (PyInt 2) (PyInt 1) = Inr (approx, ret)"
    and "length ret = nat 2"
    and "\<forall>wl\<in>set ret.
            map fst wl = [''HHH'', ''HHL'', ''HLH'', ''HLL'', ''LHH'', ''LHL'', ''LLH'']
          \<and> distinct (map fst wl)
          \<and> set (map fst wl) = {''HHH'', ''HHL'', ''HLH'', ''HLL'', ''LHH'', ''LHL'', ''LLH''}
          \<and> ''LLL'' \<notin> set (map fst wl)"
    by blast
  then have "\<exists>approx ret. swt3 haar_int volume_2x2x3 (PyStr ''haar'') (PyInt 2) (PyInt 1) = Inr (approx, ret)
     \<and> length ret = 2
     \<and> (\<forall>wl\<in>set ret.
            map fst wl = [''HHH'', ''HHL'', ''HLH'', ''HLL'', ''LHH'', ''LHL'', ''LLH'']
          \<and> distinct (map fst wl)
          \<and> set (map fst wl) = {''HHH'', ''HHL'', ''HLH'', ''HLL'', ''LHH'', ''LHL'', ''LLH''}
          \<and> ''LLL'' \<notin> set (map fst wl))"
    by auto
  then show ?thesis
    using example_run(1-3) resolve_haar by blast
qed

text \<open>
  C5: on a valid run with level count at least 1 and any start level, the detail item
  with label \<open>L\<close> of the emitted level of index \<open>idx\<close> (from 1) is named \<open>wavelet-L\<close> when
  \<open>idx = 1\<close> and \<open>wavelet\<close>, the decimal digits of \<open>idx\<close>, \<open>-L\<close> otherwise; the last item is
  named \<open>wavelet-LLL\<close> when the level count is 1 and \<open>wavelet\<close>, the digits of the level
  count, \<open>-LLL\<close> otherwise.
\<close>

theorem naming_law:
  assumes "length_preserving P"
    and "ndim (GetArrayFromImage img) = 3"
    and "0 \<notin> set (shape (GetArrayFromImage img))"
    and "resolve_wavelet P (dict_get kwargs ''wavelet'' (PyStr ''coif1'')) = Inr w"
    and "dict_get kwargs ''level'' (PyInt 1) = PyInt lev"
    and "dict_get kwargs ''start_level'' (PyInt 0) = PyInt start"
    and "1 \<le> lev"
  shows "\<exists>items. consume P (getWaveletImage img kwargs) = (items, None)
     \<and> (\<forall>idx p. 1 \<le> idx \<longrightarrow> idx \<le> nat lev \<longrightarrow> p < 7 \<longrightarrow>
            fst (snd (items ! (7 * (idx - 1) + p)))
              = (if idx = 1 then ''wavelet-'' @ detail_labels ! p
                 else ''wavelet'' @ str_nat idx @ ''-'' @ detail_labels ! p))
     \<and> fst (snd (last items))
          = (if lev = 1 then ''wavelet-LLL'' else ''wavelet'' @ str_nat (nat lev) @ ''-LLL'')
     \<and> detail_labels = [''HHH'', ''HHL'', ''HLH'', ''HLL'', ''LHH'', ''LHL'', ''LLH'']"
proof -
  let ?d = "concat (map (level_items P w img kwargs (nat start)) [0..<nat lev])"
  let ?a = "approximation_item P w img kwargs (nat start) (nat lev)"
  have len: "length ?d = nat lev * 7"
    by (rule length_detail_items)
  have det: "fst (snd ((?d @ [?a]) ! (7 * (idx - 1) + p)))
              = (if idx = 1 then ''wavelet-'' @ detail_labels ! p
                 else ''wavelet'' @ str_nat idx @ ''-'' @ detail_labels ! p)"
    if "1 \<le> idx" "idx \<le> nat lev" "p < 7" for idx p
  proof -
    have m: "idx - 1 < nat lev" using that by simp
    then have "(idx - 1) * 7 + p < nat lev * 7" using that(3) by simp
    then have "(?d @ [?a]) ! (7 * (idx - 1) + p) = ?d ! ((idx - 1) * 7 + p)"
      using len by (simp add: nth_append mult.commute)
    also have "\<dots> = level_items P w img kwargs (nat start) (idx - 1) ! p"
      using m that(3) by (rule nth_detail_items)
    finally show ?thesis
      using that by (simp add: level_items_def length_detail_labels wavelet_name_def)
  qed
  have "nat lev = 1 \<longleftrightarrow> lev = 1" by auto
  then have app: "fst (snd (last (?d @ [?a])))
          = (if lev = 1 then ''wavelet-LLL'' else ''wavelet'' @ str_nat (nat lev) @ ''-LLL'')"
    by (simp add: approximation_item_def)
  show ?thesis
    unfolding consume_spec [OF assms(1-6)] using det app by (simp add: detail_labels_def)
qed


theorem naming_law_witness:
  "length_preserving haar_int
   \<and> ndim (GetArrayFromImage volume_2x2x3) = 3
   \<and> 0 \<notin> set (shape (GetArrayFromImage volume_2x2x3))
   \<and> resolve_wavelet haar_int (dict_get two_levels ''wavelet'' (PyStr ''coif1'')) = Inr ()
   \<and> dict_get two_levels ''level'' (PyInt 1) = PyInt 2
   \<and> dict_get two_levels ''start_level'' (PyInt 0) = PyInt 1
   \<and> (1::int) \<le> 2
   \<and> (\<exists>items. consume haar_int (getWaveletImage volume_2x2x3 two_levels) = (items, None)
        \<and> fst (snd (items ! 0)) = ''wavelet-HHH''
        \<and> fst (snd (items ! 6)) = ''wavelet-LLH''
        \<and> fst (snd (items ! 7)) = ''wavelet2-HHH''
        \<and> fst (snd (items ! 13)) = ''wavelet2-LLH''
        \<and> fst (snd (last items)) = ''wavelet2-LLL'')"
proof -
  have h: "(1::int) \<le> 2" by simp
  from naming_law [OF example_run h]
  obtain items where c: "consume haar_int (getWaveletImage volume_2x2x3 two_levels) = (items, None)"
    and n: "\<And>idx p. 1 \<le> idx \<Longrightarrow> idx \<le> nat 2 \<Longrightarrow> p < 7 \<Longrightarrow>
            fst (snd (items ! (7 * (idx - 1) + p)))
              = (if idx = 1 then ''wavelet-'' @ detail_labels ! p
                 else ''wavelet'' @ str_nat idx @ ''-'' @ detail_labels ! p)"
    and l: "fst (snd (last items))
          = (if (2::int) = 1 then ''wavelet-LLL'' else ''wavelet'' @ str_nat (nat 2) @ ''-LLL'')"
    and d: "detail_labels = [''HHH'', ''HHL'', ''HLH'', ''HLL'', ''LHH'', ''LHL'', ''LLH'']"
    by blast
  have "fst (snd (items ! 0)) = ''wavelet-HHH''"
    using n [of 1 0] by (simp add: d)
  moreover have "fst (snd (items ! 6)) = ''wavelet-LLH''"
    using n [of 1 6] by (simp add: d)
  moreover have "fst (snd (items ! 7)) = ''wavelet2-HHH''"
    using n [of 2 0] by (simp add: d str_nat_2)
  moreover have "fst (snd (items ! 13)) = ''wavelet2-LLH''"
    using n [of 2 6] by (simp add: d str_nat_2)
  moreover have "fst (snd (last items)) = ''wavelet2-LLL''"
    using l by (simp add: str_nat_2)
  ultimately show ?thesis
    using example_run h c by blast
qed

lemma rows_of_arr3:
  "\<exists>rows. chain_from_iterable (arr3 n0 n1 n2 f) = Inr rows \<and> (\<forall>r\<in>set rows. length (flat r) = n2)"
  unfolding lines_of_arr3 by (auto simp: tab_lines_uniform)

lemma lines_of_volume:
  assumes "volume [n0, n1, n2] a"
  shows "\<exists>rows. chain_from_iterable a = Inr rows \<and> (\<forall>r\<in>set rows. length (flat r) = n2)"
    and "\<exists>t rows. numpy_transpose a [0, 2, 1] = Inr t \<and> chain_from_iterable t = Inr rows
           \<and> (\<forall>r\<in>set rows. length (flat r) = n1)"
    and "\<exists>t rows. numpy_transpose a [2, 1, 0] = Inr t \<and> chain_from_iterable t = Inr rows
           \<and> (\<forall>r\<in>set rows. length (flat r) = n0)"
proof -
  obtain f where a: "a = arr3 n0 n1 n2 f"
    using volume_is_arr3 [OF assms] ..
  show "\<exists>rows. chain_from_iterable a = Inr rows \<and> (\<forall>r\<in>set rows. length (flat r) = n2)"
    unfolding a by (rule rows_of_arr3)
  show "\<exists>t rows. numpy_transpose a [0, 2, 1] = Inr t \<and> chain_from_iterable t = Inr rows
           \<and> (\<forall>r\<in>set rows. length (flat r) = n1)"
    unfolding a transpose_021 using rows_of_arr3 [of n0 n2 n1] by blast
  show "\<exists>t rows. numpy_transpose a [2, 1, 0] = Inr t \<and> chain_from_iterable t = Inr rows
           \<and> (\<forall>r\<in>set rows. length (flat r) = n0)"
    unfolding a transpose_210 using rows_of_arr3 [of n2 n1 n0] by blast
qed

text \<open>
  C10: on a valid run, every dimension of the working array is even, every array a
  decomposer receives or returns has the shape of the working array, so every line handed
  to the primitive (the lines along the last axis of the array for \<^verbatim>\<open>_decompose_i\<close>, of its
  transposes for \<^verbatim>\<open>_decompose_j\<close> and \<^verbatim>\<open>_decompose_k\<close>) has even length; \<^verbatim>\<open>_swt3\<close> returns a
  result, so the odd-length error of the primitive, which would abort the run, does not
  occur at any warm-up or emission level.
\<close>

theorem primitive_lines_are_even:
  assumes "length_preserving P"
    and "ndim (GetArrayFromImage img) = 3"
    and "0 \<notin> set (shape (GetArrayFromImage img))"
    and "resolve_wavelet P wavelet = Inr w"
  shows "(\<forall>d\<in>set (shape (padded img)). even d)
     \<and> (\<forall>m. volume (shape (padded img)) (approx_after P w m (padded img)))
     \<and> (\<forall>a. volume (shape (padded img)) a \<longrightarrow>
            (\<exists>rows. chain_from_iterable a = Inr rows \<and> (\<forall>r\<in>set rows. even (length (flat r))))
          \<and> (\<exists>t rows. numpy_transpose a [0, 2, 1] = Inr t \<and> chain_from_iterable t = Inr rows
                 \<and> (\<forall>r\<in>set rows. even (length (flat r))))
          \<and> (\<exists>t rows. numpy_transpose a [2, 1, 0] = Inr t \<and> chain_from_iterable t = Inr rows
                 \<and> (\<forall>r\<in>set rows. even (length (flat r))))
          \<and> (\<exists>H L. decompose_i P a w = Inr (H, L)
                 \<and> volume (shape (padded img)) H \<and> volume (shape (padded img)) L)
          \<and> (\<exists>H L. decompose_j P a w = Inr (H, L)
                 \<and> volume (shape (padded img)) H \<and> volume (shape (padded img)) L)
          \<and> (\<exists>H L. decompose_k P a w = Inr (H, L)
                 \<and> volume (shape (padded img)) H \<and> volume (shape (padded img)) L))
     \<and> (\<exists>r. swt3 P img wavelet (PyInt lev) (PyInt start) = Inr r)
     \<and> swt3 P img wavelet (PyInt lev) (PyInt start) \<noteq> Inl (ValueError ''Length of data must be even.'')"
proof -
  from assms(2,3) obtain d0 d1 d2
    where s: "shape (GetArrayFromImage img) = [d0, d1, d2]" and pos: "0 < d0" "0 < d1" "0 < d2"
    by (rule shape_3d)
  let ?n0 = "d0 + d0 mod 2" and ?n1 = "d1 + d1 mod 2" and ?n2 = "d2 + d2 mod 2"
  have sp: "shape (padded img) = [?n0, ?n1, ?n2]"
    by (simp add: padded_def s adjusted_3d)
  have v: "volume [?n0, ?n1, ?n2] (padded img)"
    using volume_padded [OF s] by (simp add: adjusted_3d)
  have pos': "0 < ?n0" "0 < ?n1" "0 < ?n2" using pos by simp_all
  have ev: "even ?n0" "even ?n1" "even ?n2" by (rule even_adjusted)+
  have 1: "\<forall>d\<in>set (shape (padded img)). even d"
    unfolding sp using ev by simp
  have 2: "\<forall>m. volume (shape (padded img)) (approx_after P w m (padded img))"
    unfolding sp using v by (simp add: volume_approx_after)
  have 3: "\<forall>a. volume (shape (padded img)) a \<longrightarrow>
            (\<exists>rows. chain_from_iterable a = Inr rows \<and> (\<forall>r\<in>set rows. even (length (flat r))))
          \<and> (\<exists>t rows. numpy_transpose a [0, 2, 1] = Inr t \<and> chain_from_iterable t = Inr rows
                 \<and> (\<forall>r\<in>set rows. even (length (flat r))))
          \<and> (\<exists>t rows. numpy_transpose a [2, 1, 0] = Inr t \<and> chain_from_iterable t = Inr rows
                 \<and> (\<forall>r\<in>set rows. even (length (flat r))))
          \<and> (\<exists>H L. decompose_i P a w = Inr (H, L)
                 \<and> volume (shape (padded img)) H \<and> volume (shape (padded img)) L)
          \<and> (\<exists>H L. decompose_j P a w = Inr (H, L)
                 \<and> volume (shape (padded img)) H \<and> volume (shape (padded img)) L)
          \<and> (\<exists>H L. decompose_k P a w = Inr (H, L)
                 \<and> volume (shape (padded img)) H \<and> volume (shape (padded img)) L)"
  proof (intro allI impI)
    fix a :: "'b ndarray"
    assume "volume (shape (padded img)) a"
    then have va: "volume [?n0, ?n1, ?n2] a" unfolding sp .
    have sa: "shape a = [?n0, ?n1, ?n2]" using va by (rule volume_shape)
    from lines_of_volume(1) [OF va] obtain rows
      where "chain_from_iterable a = Inr rows" and "\<forall>r\<in>set rows. length (flat r) = ?n2"
      by blast
    then have r1: "\<exists>rows. chain_from_iterable a = Inr rows \<and> (\<forall>r\<in>set rows. even (length (flat r)))"
      using ev(3) by (intro exI [of _ rows]) simp
    from lines_of_volume(2) [OF va] obtain t rows
      where "numpy_transpose a [0, 2, 1] = Inr t" and "chain_from_iterable t = Inr rows"
        and "\<forall>r\<in>set rows. length (flat r) = ?n1"
      by blast
    then have r2: "\<exists>t rows. numpy_transpose a [0, 2, 1] = Inr t \<and> chain_from_iterable t = Inr rows
                 \<and> (\<forall>r\<in>set rows. even (length (flat r)))"
      using ev(2) by (intro exI [of _ t] exI [of _ rows]) simp
    from lines_of_volume(3) [OF va] obtain t rows
      where "numpy_transpose a [2, 1, 0] = Inr t" and "chain_from_iterable t = Inr rows"
        and "\<forall>r\<in>set rows. length (flat r) = ?n0"
      by blast
    then have r3: "\<exists>t rows. numpy_transpose a [2, 1, 0] = Inr t \<and> chain_from_iterable t = Inr rows
                 \<and> (\<forall>r\<in>set rows. even (length (flat r)))"
      using ev(1) by (intro exI [of _ t] exI [of _ rows]) simp
    have r4: "\<exists>H L. decompose_i P a w = Inr (H, L)
                 \<and> volume (shape (padded img)) H \<and> volume (shape (padded img)) L"
      unfolding sp
      by (rule exI [of _ "spec_axis_i P w (CHR ''H'') a"], rule exI [of _ "spec_axis_i P w (CHR ''L'') a"])
         (simp add: decompose_i_spec [OF va assms(1) pos'(1,2) ev(3)] volume_spec_axis(1) [OF sa])
    have r5: "\<exists>H L. decompose_j P a w = Inr (H, L)
                 \<and> volume (shape (padded img)) H \<and> volume (shape (padded img)) L"
      unfolding sp
      by (rule exI [of _ "spec_axis_j P w (CHR ''H'') a"], rule exI [of _ "spec_axis_j P w (CHR ''L'') a"])
         (simp add: decompose_j_spec [OF va assms(1) pos'(1,3) ev(2)] volume_spec_axis(2) [OF sa])
    have r6: "\<exists>H L. decompose_k P a w = Inr (H, L)
                 \<and> volume (shape (padded img)) H \<and> volume (shape (padded img)) L"
      unfolding sp
      by (rule exI [of _ "spec_axis_k P w (CHR ''H'') a"], rule exI [of _ "spec_axis_k P w (CHR ''L'') a"])
         (simp add: decompose_k_spec [OF va assms(1) pos'(2,3) ev(1)] volume_spec_axis(3) [OF sa])
    show "(\<exists>rows. chain_from_iterable a = Inr rows \<and> (\<forall>r\<in>set rows. even (length (flat r))))
          \<and> (\<exists>t rows. numpy_transpose a [0, 2, 1] = Inr t \<and> chain_from_iterable t = Inr rows
                 \<and> (\<forall>r\<in>set rows. even (length (flat r))))
          \<and> (\<exists>t rows. numpy_transpose a [2, 1, 0] = Inr t \<and> chain_from_iterable t = Inr rows
                 \<and> (\<forall>r\<in>set rows. even (length (flat r))))
          \<and> (\<exists>H L. decompose_i P a w = Inr (H, L)
                 \<and> volume (shape (padded img)) H \<and> volume (shape (padded img)) L)
          \<and> (\<exists>H L. decompose_j P a w = Inr (H, L)
                 \<and> volume (shape (padded img)) H \<and> volume (shape (padded img)) L)
          \<and> (\<exists>H L. decompose_k P a w = Inr (H, L)
                 \<and> volume (shape (padded img)) H \<and> volume (shape (padded img)) L)"
      by (intro conjI r1 r2 r3 r4 r5 r6)
  qed
  have 4: "\<exists>r. swt3 P img wavelet (PyInt lev) (PyInt start) = Inr r"
    unfolding swt3_spec [OF assms(1) s pos assms(4)] by (rule exI) (rule refl)
  then have 5: "swt3 P img wavelet (PyInt lev) (PyInt start) \<noteq> Inl (ValueError ''Length of data must be even.'')"
    by auto
  show ?thesis
    by (intro conjI 1 2 3 4 5)
qed


theorem primitive_lines_are_even_witness:
  "length_preserving haar_int
   \<and> ndim (GetArrayFromImage volume_2x2x3) = 3
   \<and> 0 \<notin> set (shape (GetArrayFromImage volume_2x2x3))
   \<and> resolve_wavelet haar_int (PyStr ''haar'') = Inr ()
   \<and> shape (padded volume_2x2x3) = [2, 2, 4]
   \<and> (\<exists>r. swt3 haar_int volume_2x2x3 (PyStr ''haar'') (PyInt 2) (PyInt 1) = Inr r)
   \<and> swt3 haar_int volume_2x2x3 (PyStr ''haar'') (PyInt 2) (PyInt 1)
       \<noteq> Inl (ValueError ''Length of data must be even.'')"
proof -
  have sh: "shape (padded volume_2x2x3) = [2, 2, 4]"
    by (simp add: padded_def adjusted_def GetArrayFromImage_def volume_2x2x3_def)
  note t = primitive_lines_are_even [OF example_run(1-3) resolve_haar, of 2 1]
  from t have "\<exists>r. swt3 haar_int volume_2x2x3 (PyStr ''haar'') (PyInt 2) (PyInt 1) = Inr r"
    by (elim conjE)
  moreover from t have "swt3 haar_int volume_2x2x3 (PyStr ''haar'') (PyInt 2) (PyInt 1)
       \<noteq> Inl (ValueError ''Length of data must be even.'')"
    by (elim conjE)
  ultimately show ?thesis
    using example_run(1-3) resolve_haar sh by (intro conjI)
qed

lemma padded_2x2x3:
  "ndarray_resize (GetArrayFromImage volume_2x2x3) [2, 2, 4]
     = \<lparr>shape = [2, 2, 4], flat = [1, 2, 3, 4, 5, 6, 7, 8, 9, 10, 11, 13, 0, 0, 0, 0]\<rparr>"
  by code_simp

lemma padded_is_resize: "padded volume_2x2x3 = ndarray_resize (GetArrayFromImage volume_2x2x3) [2, 2, 4]"
  by (simp add: padded_def adjusted_def GetArrayFromImage_def volume_2x2x3_def)

lemma level_2x2x3:
  "decompose_level haar_int ()
     \<lparr>shape = [2, 2, 4], flat = [1, 2, 3, 4, 5, 6, 7, 8, 9, 10, 11, 13, 0, 0, 0, 0]\<rparr>
   = Inr ([(''HHH'', \<lparr>shape = [2, 2, 4], flat = [1, 1, 2, - 4, - 1, - 1, - 2, 4, - 1, - 1, - 2, 4, 1, 1, 2, - 4]\<rparr>),
       (''HHL'', \<lparr>shape = [2, 2, 4], flat = [- 1, - 1, - 2, 4, 1, 1, 2, - 4, - 1, - 1, - 2, 4, 1, 1, 2, - 4]\<rparr>),
       (''HLH'', \<lparr>shape = [2, 2, 4], flat = [- 1, - 1, 0, 2, - 1, - 1, 0, 2, 1, 1, 0, - 2, 1, 1, 0, - 2]\<rparr>),
       (''HLL'', \<lparr>shape = [2, 2, 4], flat = [- 3, - 3, - 4, 10, - 3, - 3, - 4, 10, - 3, - 3, - 4, 10, - 3, - 3, - 4, 10]\<rparr>),
       (''LHH'', \<lparr>shape = [2, 2, 4], flat = [- 27, - 29, - 32, - 30, 27, 29, 32, 30, 27, 29, 32, 30, - 27, - 29, - 32, - 30]\<rparr>),
       (''LHL'', \<lparr>shape = [2, 2, 4], flat = [11, 13, 16, 14, - 11, - 13, - 16, - 14, 11, 13, 16, 14, - 11, - 13, - 16, - 14]\<rparr>),
       (''LLH'', \<lparr>shape = [2, 2, 4], flat = [- 5, - 3, - 2, - 4, - 5, - 3, - 2, - 4, 5, 3, 2, 4, 5, 3, 2, 4]\<rparr>)],
      \<lparr>shape = [2, 2, 4], flat = [33, 39, 46, 40, 33, 39, 46, 40, 33, 39, 46, 40, 33, 39, 46, 40]\<rparr>)"
  by code_simp

lemma HHH_2x2x3:
  "spec_subband haar_int () ''HHH'' (padded volume_2x2x3)
     = \<lparr>shape = [2, 2, 4], flat = [1, 1, 2, - 4, - 1, - 1, - 2, 4, - 1, - 1, - 2, 4, 1, 1, 2, - 4]\<rparr>"
proof -
  have v: "volume [2, 2, 4] (padded volume_2x2x3)"
    unfolding padded_is_resize padded_2x2x3 by (simp add: volume_def wf_array_def)
  have "decompose_level haar_int () (padded volume_2x2x3)
       = Inr (map (\<lambda>l. (l, spec_subband haar_int () l (padded volume_2x2x3))) detail_labels,
              spec_subband haar_int () ''LLL'' (padded volume_2x2x3))"
    using v length_preserving_haar_int by (rule decompose_level_spec) simp_all
  then show ?thesis
    unfolding padded_is_resize padded_2x2x3 level_2x2x3 by (simp add: detail_labels_def)
qed

lemma emitted_HHH_2x2x3:
  "at3 (GetArrayFromImage (emitted_image volume_2x2x3
      \<lparr>shape = [2, 2, 4], flat = [1, 1, 2, - 4, - 1, - 1, - 2, 4, - 1, - 1, - 2, 4, 1, 1, 2, - 4]\<rparr>)) 0 1 0 = - 4"
  by code_simp


lemma take_concat_replicate:
  "0 < r \<Longrightarrow> n \<le> length xs \<Longrightarrow> take n (concat (replicate r xs)) = take n xs"
  by (cases r) simp_all

lemma numpy_resize_shrink:
  assumes "0 < prod_list s" "prod_list s \<le> length (flat a)"
  shows "flat (numpy_resize a s) = take (prod_list s) (flat a)"
proof -
  let ?r = "(prod_list s + length (flat a) - 1) div length (flat a)"
  have la: "0 < length (flat a)" using assms by (rule less_le_trans)
  have "prod_list s \<le> ?r * length (flat a)"
    using la by (rule ceil_div_covers)
  then have r: "0 < ?r"
    using assms(1) by (cases ?r) simp_all
  have "numpy_resize a s = \<lparr>shape = s, flat = take (prod_list s) (concat (replicate ?r (flat a)))\<rparr>"
    using assms(1) la by (simp add: numpy_resize_def Let_def)
  then show ?thesis
    using take_concat_replicate [OF r assms(2)] by simp
qed

lemma adjusted_ge: "d \<le> d + d mod (2::nat)"
  by simp

text \<open>
  What the trimming does: the emitted sample at \<open>(k, j, i)\<close> is the sample of the working
  array at the flat offset \<open>(k * d1 + j) * d2 + i\<close>, computed with the strides of the
  original shape.
\<close>

lemma emitted_sample_offset:
  assumes s: "shape (GetArrayFromImage img) = [d0, d1, d2]"
    and v: "volume (adjusted [d0, d1, d2]) W"
    and r: "k < d0" "j < d1" "i < d2"
  shows "at3 (GetArrayFromImage (emitted_image img W)) k j i = flat W ! ((k * d1 + j) * d2 + i)"
proof -
  have lw: "length (flat W) = (d0 + d0 mod 2) * (d1 + d1 mod 2) * (d2 + d2 mod 2)"
    using v by (simp add: volume_def wf_array_def adjusted_3d mult.assoc)
  have "d0 * d1 \<le> (d0 + d0 mod 2) * (d1 + d1 mod 2)"
    by (intro mult_le_mono adjusted_ge)
  then have le: "d0 * d1 * d2 \<le> length (flat W)"
    unfolding lw by (intro mult_le_mono adjusted_ge)
  have "k * d1 + j < d0 * d1" using r(1,2) by (rule index_bound)
  then have b: "(k * d1 + j) * d2 + i < d0 * d1 * d2" using r(3) by (rule index_bound)
  have pos: "0 < prod_list [d0, d1, d2]" using r by simp
  have "flat (numpy_resize W [d0, d1, d2]) = take (d0 * d1 * d2) (flat W)"
    using numpy_resize_shrink [OF pos] le by (simp add: mult.assoc)
  then show ?thesis
    using b by (simp add: at3_def item_def emitted_image_def GetImageFromArray_def
        GetArrayFromImage_def Let_def s [unfolded GetArrayFromImage_def])
qed

text \<open>
  When the two inner dimensions are even the strides of the working array are those of the
  original one, and trimming is index-aligned.
\<close>

lemma emitted_sample_aligned:
  assumes s: "shape (GetArrayFromImage img) = [d0, d1, d2]"
    and v: "volume (adjusted [d0, d1, d2]) W"
    and r: "k < d0" "j < d1" "i < d2"
    and e: "even d1" "even d2"
  shows "at3 (GetArrayFromImage (emitted_image img W)) k j i = at3 W k j i"
proof -
  have "shape W = [d0 + d0 mod 2, d1, d2]"
    using v e by (simp add: volume_def adjusted_3d)
  then have "at3 W k j i = flat W ! ((k * d1 + j) * d2 + i)"
    by (simp add: at3_def item_def)
  then show ?thesis
    using emitted_sample_offset [OF s v r] by simp
qed

text \<open>
  C1: a volume of shape (2, 2, 3), one level. The working array has shape (2, 2, 4); the
  row stride changes from 3 to 4, so the input sample at (0, 1, 0) is not the working sample
  at (0, 1, 0), and the emitted HHH sample at (0, 1, 0) is the working HHH sample at
  (0, 0, 3), not the one at (0, 1, 0).
\<close>

theorem resize_breaks_index_alignment:
  "\<exists>approx ret dec LLL W E.
     swt3 haar_int volume_2x2x3 (PyStr ''haar'') (PyInt 1) (PyInt 0) = Inr (approx, ret)
   \<and> decompose_level haar_int () (ndarray_resize (GetArrayFromImage volume_2x2x3) [2, 2, 4])
       = Inr (dec, LLL)
   \<and> map_of dec ''HHH'' = Some W
   \<and> map_of (ret ! 0) ''HHH'' = Some E
   \<and> shape W = [2, 2, 4] \<and> shape (GetArrayFromImage E) = [2, 2, 3]
   \<and> at3 W 0 1 0 = - 1
   \<and> at3 (GetArrayFromImage E) 0 1 0 = - 4
   \<and> at3 W 0 0 3 = - 4
   \<and> at3 (GetArrayFromImage volume_2x2x3) 0 1 0 = 4
   \<and> at3 (ndarray_resize (GetArrayFromImage volume_2x2x3) [2, 2, 4]) 0 1 0 = 5
   \<and> at3 (ndarray_resize (GetArrayFromImage volume_2x2x3) [2, 2, 4]) 0 0 3 = 4"
proof -
  let ?W = "\<lparr>shape = [2, 2, 4],
              flat = [1, 1, 2, - 4, - 1, - 1, - 2, 4, - 1, - 1, - 2, 4, 1, 1, 2, - 4 :: int]\<rparr>"
  have s: "shape (GetArrayFromImage volume_2x2x3) = [2, 2, 3]"
    by (simp add: GetArrayFromImage_def volume_2x2x3_def)
  have run: "swt3 haar_int volume_2x2x3 (PyStr ''haar'') (PyInt 1) (PyInt 0)
      = Inr (emitted_image volume_2x2x3 (approx_after haar_int () (nat 0 + nat 1) (padded volume_2x2x3)),
             map (\<lambda>m. level_result haar_int () volume_2x2x3
                        (approx_after haar_int () (nat 0 + m) (padded volume_2x2x3))) [0..<nat 1])"
    using length_preserving_haar_int s _ _ _ resolve_haar by (rule swt3_spec) simp_all
  let ?ret = "map (\<lambda>m. level_result haar_int () volume_2x2x3
                        (approx_after haar_int () (nat 0 + m) (padded volume_2x2x3))) [0..<nat 1]"
  have "?ret ! 0 = level_result haar_int () volume_2x2x3 (padded volume_2x2x3)"
    by (simp add: approx_after_def)
  then have E: "map_of (?ret ! 0) ''HHH'' = Some (emitted_image volume_2x2x3 ?W)"
    by (simp add: map_of_level_result detail_labels_def HHH_2x2x3)
  have W: "at3 ?W 0 1 0 = - 1" "at3 ?W 0 0 3 = - 4"
    by (simp_all add: at3_def item_def ravel_def)
  have I: "at3 (GetArrayFromImage volume_2x2x3) 0 1 0 = 4"
    "at3 (ndarray_resize (GetArrayFromImage volume_2x2x3) [2, 2, 4]) 0 1 0 = 5"
    "at3 (ndarray_resize (GetArrayFromImage volume_2x2x3) [2, 2, 4]) 0 0 3 = 4"
    unfolding padded_2x2x3
    by (simp_all add: at3_def item_def ravel_def GetArrayFromImage_def volume_2x2x3_def)
  show ?thesis
  proof (intro exI conjI)
    show "swt3 haar_int volume_2x2x3 (PyStr ''haar'') (PyInt 1) (PyInt 0)
      = Inr (emitted_image volume_2x2x3 (approx_after haar_int () (nat 0 + nat 1) (padded volume_2x2x3)), ?ret)"
      by (rule run)
    show "decompose_level haar_int () (ndarray_resize (GetArrayFromImage volume_2x2x3) [2, 2, 4])
      = Inr ([(''HHH'', ?W),
       (''HHL'', \<lparr>shape = [2, 2, 4], flat = [- 1, - 1, - 2, 4, 1, 1, 2, - 4, - 1, - 1, - 2, 4, 1, 1, 2, - 4]\<rparr>),
       (''HLH'', \<lparr>shape = [2, 2, 4], flat = [- 1, - 1, 0, 2, - 1, - 1, 0, 2, 1, 1, 0, - 2, 1, 1, 0, - 2]\<rparr>),
       (''HLL'', \<lparr>shape = [2, 2, 4], flat = [- 3, - 3, - 4, 10, - 3, - 3, - 4, 10, - 3, - 3, - 4, 10, - 3, - 3, - 4, 10]\<rparr>),
       (''LHH'', \<lparr>shape = [2, 2, 4], flat = [- 27, - 29, - 32, - 30, 27, 29, 32, 30, 27, 29, 32, 30, - 27, - 29, - 32, - 30]\<rparr>),
       (''LHL'', \<lparr>shape = [2, 2, 4], flat = [11, 13, 16, 14, - 11, - 13, - 16, - 14, 11, 13, 16, 14, - 11, - 13, - 16, - 14]\<rparr>),
       (''LLH'', \<lparr>shape = [2, 2, 4], flat = [- 5, - 3, - 2, - 4, - 5, - 3, - 2, - 4, 5, 3, 2, 4, 5, 3, 2, 4]\<rparr>)],
      \<lparr>shape = [2, 2, 4], flat = [33, 39, 46, 40, 33, 39, 46, 40, 33, 39, 46, 40, 33, 39, 46, 40]\<rparr>)"
      unfolding padded_2x2x3 by (rule level_2x2x3)
    show "map_of (?ret ! 0) ''HHH'' = Some (emitted_image volume_2x2x3 ?W)"
      by (rule E)
    show "shape (GetArrayFromImage (emitted_image volume_2x2x3 ?W)) = [2, 2, 3]"
      by (simp add: emitted_image_facts s)
    show "at3 (GetArrayFromImage (emitted_image volume_2x2x3 ?W)) 0 1 0 = - 4"
      by (rule emitted_HHH_2x2x3)
    show "map_of [(''HHH'', ?W),
       (''HHL'', \<lparr>shape = [2, 2, 4], flat = [- 1, - 1, - 2, 4, 1, 1, 2, - 4, - 1, - 1, - 2, 4, 1, 1, 2, - 4]\<rparr>),
       (''HLH'', \<lparr>shape = [2, 2, 4], flat = [- 1, - 1, 0, 2, - 1, - 1, 0, 2, 1, 1, 0, - 2, 1, 1, 0, - 2]\<rparr>),
       (''HLL'', \<lparr>shape = [2, 2, 4], flat = [- 3, - 3, - 4, 10, - 3, - 3, - 4, 10, - 3, - 3, - 4, 10, - 3, - 3, - 4, 10]\<rparr>),
       (''LHH'', \<lparr>shape = [2, 2, 4], flat = [- 27, - 29, - 32, - 30, 27, 29, 32, 30, 27, 29, 32, 30, - 27, - 29, - 32, - 30]\<rparr>),
       (''LHL'', \<lparr>shape = [2, 2, 4], flat = [11, 13, 16, 14, - 11, - 13, - 16, - 14, 11, 13, 16, 14, - 11, - 13, - 16, - 14]\<rparr>),
       (''LLH'', \<lparr>shape = [2, 2, 4], flat = [- 5, - 3, - 2, - 4, - 5, - 3, - 2, - 4, 5, 3, 2, 4, 5, 3, 2, 4]\<rparr>)]
      ''HHH'' = Some ?W"
      by simp
    show "shape ?W = [2, 2, 4]" by simp
    show "at3 ?W 0 1 0 = - 1" by (rule W(1))
    show "at3 ?W 0 0 3 = - 4" by (rule W(2))
    show "at3 (GetArrayFromImage volume_2x2x3) 0 1 0 = 4" by (rule I(1))
    show "at3 (ndarray_resize (GetArrayFromImage volume_2x2x3) [2, 2, 4]) 0 1 0 = 5" by (rule I(2))
    show "at3 (ndarray_resize (GetArrayFromImage volume_2x2x3) [2, 2, 4]) 0 0 3 = 4" by (rule I(3))
  qed
qed

lemma getWaveletImage_body_not_3d:
  "ndim (GetArrayFromImage inputImage) \<noteq> 3 \<Longrightarrow>
   getWaveletImage_body P inputImage kwargs = Inl (ValueError ''Expected 3D data array'')"
  by (simp add: getWaveletImage_body_def swt3_def)

section \<open>Inputs that are not three-dimensional\<close>

text \<open>
  C7: when the sample array of the input is not three-dimensional, \<^verbatim>\<open>_swt3\<close> raises the
  ValueError "Expected 3D data array" whatever the wavelet, level and start level are and
  whatever the transform primitive does: the check comes before the wavelet is resolved
  and before any decomposition. Consuming the generator yields no item before the error.
\<close>
theorem shape_error_precedes_computation:
  assumes "ndim (GetArrayFromImage inputImage) \<noteq> 3"
  shows "swt3 P inputImage wavelet level start_level = Inl (ValueError ''Expected 3D data array'')
     \<and> getWaveletImage_body P inputImage kwargs = Inl (ValueError ''Expected 3D data array'')
     \<and> consume P (getWaveletImage inputImage kwargs) = ([], Some (ValueError ''Expected 3D data array''))"
  using assms
  by (simp add: swt3_def getWaveletImage_body_not_3d consume.simps getWaveletImage_def)

theorem shape_error_precedes_computation_witness:
  "ndim (GetArrayFromImage plane_2x3) \<noteq> 3
   \<and> swt3 haar_int plane_2x3 PyOther (PyStr ''two'') PyOther
       = Inl (ValueError ''Expected 3D data array'')
   \<and> getWaveletImage_body haar_int plane_2x3 [''wavelet'' \<mapsto> PyOther]
       = Inl (ValueError ''Expected 3D data array'')
   \<and> consume haar_int (getWaveletImage plane_2x3 [''wavelet'' \<mapsto> PyOther])
       = ([], Some (ValueError ''Expected 3D data array''))"
proof -
  have h: "ndim (GetArrayFromImage plane_2x3) \<noteq> 3"
    by (simp add: ndim_def GetArrayFromImage_def plane_2x3_def)
  show ?thesis
    using h shape_error_precedes_computation [OF h, of haar_int PyOther "PyStr ''two''" PyOther
        "[''wavelet'' \<mapsto> PyOther]"]
    by blast
qed

text \<open>
  C9: calling \<^verbatim>\<open>getWaveletImage\<close> on an input that is not three-dimensional only creates
  the generator; the ValueError "Expected 3D data array" is the outcome of the first
  \<^verbatim>\<open>next\<close>, and the sequence has no item.
\<close>
theorem generator_raises_on_first_next:
  assumes "ndim (GetArrayFromImage inputImage) \<noteq> 3"
  shows "getWaveletImage inputImage kwargs = Created (inputImage, kwargs)
     \<and> gen_next P (getWaveletImage inputImage kwargs)
         = (Raise (ValueError ''Expected 3D data array''), Finished)
     \<and> fst (consume P (getWaveletImage inputImage kwargs)) = []"
  using assms
  by (simp add: getWaveletImage_body_not_3d consume.simps getWaveletImage_def)

theorem generator_raises_on_first_next_witness:
  "ndim (GetArrayFromImage plane_2x3) \<noteq> 3
   \<and> getWaveletImage plane_2x3 (Map.empty :: unit kwargs) = Created (plane_2x3, Map.empty)
   \<and> gen_next haar_int (getWaveletImage plane_2x3 Map.empty)
       = (Raise (ValueError ''Expected 3D data array''), Finished)
   \<and> fst (consume haar_int (getWaveletImage plane_2x3 Map.empty)) = []"
proof -
  have h: "ndim (GetArrayFromImage plane_2x3) \<noteq> 3"
    by (simp add: ndim_def GetArrayFromImage_def plane_2x3_def)
  show ?thesis
    using h generator_raises_on_first_next [OF h, of Map.empty haar_int]
    by blast
qed

end
